theory Spec2Isabelle
  imports Complex_Main "HOL-Library.Sublist"
begin

section \<open>Python values\<close>

text \<open>
  The client is dynamically typed: what it reads from a chat file or from the server is
  whatever \<^verbatim>\<open>json.load\<close> returns. A value is therefore a JSON-shaped Python
  value. A finite float is represented by the rational number it denotes; objects are
  association lists in insertion order, with string keys as \<^verbatim>\<open>json\<close> produces them.
\<close>

datatype pyfloat = Finite rat | PosInf | NegInf | NaN

datatype pyval =
    PNone
  | PBool bool
  | PInt int
  | PFloat pyfloat
  | PStr string
  | PList "pyval list"
  | PDict "(string \<times> pyval) list"

text \<open>
  The exceptions the modelled code can meet. \<open>JSONDecodeError\<close> is the one of the
  standard \<^verbatim>\<open>json\<close> module, a subclass of \<open>ValueError\<close> and not a
  \<^verbatim>\<open>requests.exceptions.RequestException\<close>. \<open>NonStringKey\<close> is not a Python exception:
  it marks the one place where Python would store a key that is not a string
  (see \<open>update_seq\<close>), which the string-keyed dictionaries of this theory cannot hold.
\<close>

datatype pyerr =
    TypeError | ValueError | KeyError | AttributeError | OverflowError
  | FileNotFoundError | JSONDecodeError | ParsingError | InterpolationError
  | NonStringKey

text \<open>A call either returns a value or lets an exception escape to its caller.\<close>

datatype 'a outcome = Returns 'a | Raises pyerr

type_synonym pydict = "(string \<times> pyval) list"

text \<open>Truth value of a Python object, as \<^verbatim>\<open>if x:\<close> and \<^verbatim>\<open>not x\<close> test it.\<close>

fun truthy :: "pyval \<Rightarrow> bool" where
  "truthy PNone = False"
| "truthy (PBool b) = b"
| "truthy (PInt i) = (i \<noteq> 0)"
| "truthy (PFloat f) = (f \<noteq> Finite 0)"
| "truthy (PStr s) = (s \<noteq> [])"
| "truthy (PList xs) = (xs \<noteq> [])"
| "truthy (PDict kvs) = (kvs \<noteq> [])"

text \<open>\<^verbatim>\<open>d[k] = v\<close>: an existing key keeps its position, a new key goes last.\<close>

fun dict_set :: "pydict \<Rightarrow> string \<Rightarrow> pyval \<Rightarrow> pydict" where
  "dict_set [] k v = [(k, v)]"
| "dict_set ((k', v') # d) k v =
     (if k' = k then (k', v) # d else (k', v') # dict_set d k v)"

text \<open>\<^verbatim>\<open>d.get(k, default)\<close>; a value that is not a dict has no \<^verbatim>\<open>get\<close>.\<close>

definition py_get :: "pyval \<Rightarrow> string \<Rightarrow> pyval \<Rightarrow> pyerr + pyval" where
  "py_get d k dflt =
     (case d of
        PDict kvs \<Rightarrow> Inr (case map_of kvs k of Some v \<Rightarrow> v | None \<Rightarrow> dflt)
      | _ \<Rightarrow> Inl AttributeError)"

text \<open>\<^verbatim>\<open>s in t\<close> on strings: \<open>s\<close> occurs in \<open>t\<close> as a contiguous piece.\<close>

fun occurs_in :: "string \<Rightarrow> string \<Rightarrow> bool" where
  "occurs_in s [] = (s = [])"
| "occurs_in s (c # cs) = (prefix s (c # cs) \<or> occurs_in s cs)"

text \<open>
  \<^verbatim>\<open>k in x\<close> for a string \<open>k\<close>: key membership on a dict, element membership on a
  list, substring test on a string, \<open>TypeError\<close> on anything else.
\<close>

fun py_contains :: "pyval \<Rightarrow> string \<Rightarrow> pyerr + bool" where
  "py_contains (PDict kvs) k = Inr (map_of kvs k \<noteq> None)"
| "py_contains (PList xs) k = Inr (List.member xs (PStr k))"
| "py_contains (PStr s) k = Inr (occurs_in k s)"
| "py_contains _ k = Inl TypeError"

text \<open>\<^verbatim>\<open>x[k]\<close> for a string \<open>k\<close>: only a dict can be indexed by a string.\<close>

fun py_getitem :: "pyval \<Rightarrow> string \<Rightarrow> pyerr + pyval" where
  "py_getitem (PDict kvs) k = (case map_of kvs k of Some v \<Rightarrow> Inr v | None \<Rightarrow> Inl KeyError)"
| "py_getitem _ k = Inl TypeError"

text \<open>\<^verbatim>\<open>x[k] = v\<close> for a string \<open>k\<close>.\<close>

fun py_setitem :: "pyval \<Rightarrow> string \<Rightarrow> pyval \<Rightarrow> pyerr + pyval" where
  "py_setitem (PDict kvs) k v = Inr (PDict (dict_set kvs k v))"
| "py_setitem _ k v = Inl TypeError"

text \<open>What a \<^verbatim>\<open>for\<close> loop or a comprehension iterates over.\<close>

fun py_iter :: "pyval \<Rightarrow> pyerr + pyval list" where
  "py_iter (PList xs) = Inr xs"
| "py_iter (PStr s) = Inr (map (\<lambda>c. PStr [c]) s)"
| "py_iter (PDict kvs) = Inr (map (\<lambda>kv. PStr (fst kv)) kvs)"
| "py_iter _ = Inl TypeError"

text \<open>\<^verbatim>\<open>xs.append(x)\<close>: only a list has \<^verbatim>\<open>append\<close>.\<close>

fun py_append :: "pyval \<Rightarrow> pyval \<Rightarrow> pyerr + pyval" where
  "py_append (PList xs) x = Inr (PList (xs @ [x]))"
| "py_append _ x = Inl AttributeError"

text \<open>
  \<^verbatim>\<open>d.update(other)\<close>. A dict is merged key by key. Anything else is read as a
  sequence of pairs: each element must itself be a sequence of length two (a list, a
  string of two characters, a dict with two keys), and its first component is the key.
  Elements are stored as they are met, so a failure leaves the earlier ones in \<open>d\<close>.

  A key that is a list or a dict is unhashable, and Python raises \<open>TypeError\<close>. A key
  that is a number, a boolean or \<^verbatim>\<open>None\<close> is hashable: Python stores the pair under
  that key and goes on. The dictionaries of this theory are keyed by strings and cannot
  hold such a pair, so \<open>update_seq\<close> stops there and answers \<open>NonStringKey\<close>. That
  answer is not an outcome of the code, it says that the code has left the states this
  theory describes; a property that depends on how a merge ends excludes it by name.
\<close>

fun pair_of :: "pyval \<Rightarrow> pyerr + (pyval \<times> pyval)" where
  "pair_of (PList [k, v]) = Inr (k, v)"
| "pair_of (PStr [a, b]) = Inr (PStr [a], PStr [b])"
| "pair_of (PDict [(k1, v1), (k2, v2)]) = Inr (PStr k1, PStr k2)"
| "pair_of (PList xs) = Inl ValueError"
| "pair_of (PStr s) = Inl ValueError"
| "pair_of (PDict kvs) = Inl ValueError"
| "pair_of x = Inl TypeError"

fun update_seq :: "pydict \<Rightarrow> pyval list \<Rightarrow> pyerr option \<times> pydict" where
  "update_seq d [] = (None, d)"
| "update_seq d (e # es) =
     (case pair_of e of
        Inl err \<Rightarrow> (Some err, d)
      | Inr (k, v) \<Rightarrow>
          (case k of
             PStr s \<Rightarrow> update_seq (dict_set d s v) es
           | PList xs \<Rightarrow> (Some TypeError, d)
           | PDict kvs \<Rightarrow> (Some TypeError, d)
           | _ \<Rightarrow> (Some NonStringKey, d)))"

fun dict_update :: "pydict \<Rightarrow> pyval \<Rightarrow> pyerr option \<times> pydict" where
  "dict_update d (PDict kvs) = (None, fold (\<lambda>kv d'. dict_set d' (fst kv) (snd kv)) kvs d)"
| "dict_update d (PList es) = update_seq d es"
| "dict_update d (PStr s) = update_seq d (map (\<lambda>c. PStr [c]) s)"
| "dict_update d x = (Some TypeError, d)"

section \<open>Library functions taken as parameters\<close>

text \<open>
  The behaviour of the Python library that the client relies on and that this theory does
  not define: the float parser, the rounding of an integer to a double, \<^verbatim>\<open>str()\<close>, and
  three pieces of \<^verbatim>\<open>configparser\<close> (the check of \<^verbatim>\<open>%\<close> in a value that is stored,
  the lower-casing of option names, and the interpolating read of an option).
  Every theorem below holds for all of them.
\<close>

record ini =
  sections :: "string list"
  defaults :: "string \<rightharpoonup> string"
  options :: "string \<times> string \<rightharpoonup> string"

record pylib =
  float_of_str :: "string \<Rightarrow> pyfloat option"
  float_of_int :: "int \<Rightarrow> pyfloat option"
  str_of :: "pyval \<Rightarrow> string"
  interp_ok :: "string \<Rightarrow> bool"
  lower :: "string \<Rightarrow> string"
  ini_get :: "ini \<Rightarrow> string \<Rightarrow> string \<Rightarrow> pyerr + string"

text \<open>
  \<^verbatim>\<open>float(x)\<close>: a float is returned as it is (also \<^verbatim>\<open>inf\<close> and \<^verbatim>\<open>nan\<close>), a string is
  parsed (\<open>ValueError\<close> when it is no float literal), an integer is rounded
  (\<open>OverflowError\<close> when too large), anything else but a bool is a \<open>TypeError\<close>.
\<close>

fun py_float :: "pylib \<Rightarrow> pyval \<Rightarrow> pyerr + pyfloat" where
  "py_float L (PFloat f) = Inr f"
| "py_float L (PInt i) = (case float_of_int L i of Some f \<Rightarrow> Inr f | None \<Rightarrow> Inl OverflowError)"
| "py_float L (PBool b) = Inr (Finite (if b then 1 else 0))"
| "py_float L (PStr s) = (case float_of_str L s of Some f \<Rightarrow> Inr f | None \<Rightarrow> Inl ValueError)"
| "py_float L x = Inl TypeError"

text \<open>\<^verbatim>\<open>except ValueError\<close> also catches the subclasses of \<open>ValueError\<close>.\<close>

fun is_ValueError :: "pyerr \<Rightarrow> bool" where
  "is_ValueError ValueError = True"
| "is_ValueError JSONDecodeError = True"
| "is_ValueError e = False"

section \<open>The session object\<close>

text \<open>The fields of \<^verbatim>\<open>OllamaChat\<close>, with the types the code can put in them.\<close>

record ollama =
  base_url :: string
  model :: pyval
  api_generate :: string
  api_chat :: string
  api_models :: string
  conversation :: pyval
  save_dir :: string
  system_prompt :: pyval
  chat_name :: pyval
  parameters :: pydict
  config :: ini

definition default_parameters :: pydict where
  "default_parameters =
     [(''temperature'', PFloat (Finite (3152519739159347 / 4503599627370496))),
      (''top_p'', PFloat (Finite (8106479329266893 / 9007199254740992))),
      (''top_k'', PInt 40),
      (''max_tokens'', PInt 2000)]"

definition fixed_keys :: "string set" where
  "fixed_keys = {''temperature'', ''top_p'', ''top_k'', ''max_tokens''}"

definition empty_ini :: ini where
  "empty_ini = \<lparr>sections = [], defaults = Map.empty, options = Map.empty\<rparr>"

text \<open>\<^verbatim>\<open>name in self.config\<close> and \<^verbatim>\<open>key in self.config[name]\<close>.\<close>

definition has_section :: "ini \<Rightarrow> string \<Rightarrow> bool" where
  "has_section c sec = (sec = ''DEFAULT'' \<or> List.member (sections c) sec)"

definition has_option :: "pylib \<Rightarrow> ini \<Rightarrow> string \<Rightarrow> string \<Rightarrow> bool" where
  "has_option L c sec key =
     (options c (sec, lower L key) \<noteq> None \<or> defaults c (lower L key) \<noteq> None)"

text \<open>What \<^verbatim>\<open>config.ini\<close> holds when the object is built.\<close>

datatype ini_file = NoFile | Unparsable | Parsed ini

text \<open>
  The loop of \<^verbatim>\<open>__init__\<close> over the keys of \<^verbatim>\<open>self.parameters\<close>: a key that the
  \<^verbatim>\<open>Parameters\<close> section has is overwritten by the float read from it.
\<close>

fun read_parameters :: "pylib \<Rightarrow> ini \<Rightarrow> string list \<Rightarrow> pydict \<Rightarrow> pyerr + pydict" where
  "read_parameters L c [] ps = Inr ps"
| "read_parameters L c (key # keys) ps =
     (if has_option L c ''Parameters'' key then
        (case ini_get L c ''Parameters'' key of
           Inl e \<Rightarrow> Inl e
         | Inr txt \<Rightarrow>
             (case py_float L (PStr txt) of
                Inl e \<Rightarrow> Inl e
              | Inr f \<Rightarrow> read_parameters L c keys (dict_set ps key (PFloat f))))
      else read_parameters L c keys ps)"

text \<open>One of the three optional settings of the \<^verbatim>\<open>Ollama\<close> section.\<close>

definition read_setting :: "pylib \<Rightarrow> ini \<Rightarrow> string \<Rightarrow> pyerr + string option" where
  "read_setting L c key =
     (if has_option L c ''Ollama'' key then
        (case ini_get L c ''Ollama'' key of Inl e \<Rightarrow> Inl e | Inr v \<Rightarrow> Inr (Some v))
      else Inr None)"

text \<open>The assignments of \<^verbatim>\<open>__init__\<close> before it looks for \<^verbatim>\<open>config.ini\<close>.\<close>

definition new_session :: "string \<Rightarrow> string \<Rightarrow> ollama" where
  "new_session url mdl =
     \<lparr>base_url = url, model = PStr mdl,
      api_generate = url @ ''/api/generate'',
      api_chat = url @ ''/api/chat'',
      api_models = url @ ''/api/tags'',
      conversation = PList [], save_dir = ''chat_history'',
      system_prompt = PStr [], chat_name = PStr [],
      parameters = default_parameters, config = empty_ini\<rparr>"

definition init :: "pylib \<Rightarrow> ini_file \<Rightarrow> string \<Rightarrow> string \<Rightarrow> pyerr + ollama" where
  "init L file url mdl =
     (let s = new_session url mdl
      in case file of
           NoFile \<Rightarrow> Inr s
         | Unparsable \<Rightarrow> Inl ParsingError
         | Parsed c \<Rightarrow>
            (case (if has_section c ''Ollama'' then
                     (case read_setting L c ''base_url'' of
                        Inl e \<Rightarrow> Inl e
                      | Inr u \<Rightarrow>
                     (case read_setting L c ''model'' of
                        Inl e \<Rightarrow> Inl e
                      | Inr m \<Rightarrow>
                     (case read_setting L c ''system_prompt'' of
                        Inl e \<Rightarrow> Inl e
                      | Inr p \<Rightarrow>
                          Inr (s\<lparr>base_url := (case u of Some v \<Rightarrow> v | None \<Rightarrow> base_url s),
                                 model := (case m of Some v \<Rightarrow> PStr v | None \<Rightarrow> model s),
                                 system_prompt :=
                                   (case p of Some v \<Rightarrow> PStr v | None \<Rightarrow> system_prompt s),
                                 config := c\<rparr>))))
                   else Inr (s\<lparr>config := c\<rparr>)) of
               Inl e \<Rightarrow> Inl e
             | Inr s1 \<Rightarrow>
                 if has_section c ''Parameters'' then
                   (case read_parameters L c (map fst (parameters s1)) (parameters s1) of
                      Inl e \<Rightarrow> Inl e
                    | Inr ps \<Rightarrow> Inr (s1\<lparr>parameters := ps\<rparr>))
                 else Inr s1))"

section \<open>Writing the configuration\<close>

text \<open>
  \<^verbatim>\<open>self.config[sec][key] = value\<close>: \<^verbatim>\<open>configparser\<close> refuses a value that is not a
  string (\<open>TypeError\<close>) and a string with a stray \<^verbatim>\<open>%\<close> (\<open>ValueError\<close>).
\<close>

definition ini_set :: "pylib \<Rightarrow> ini \<Rightarrow> string \<Rightarrow> string \<Rightarrow> pyval \<Rightarrow> pyerr + ini" where
  "ini_set L c sec key v =
     (case v of
        PStr s \<Rightarrow>
          if interp_ok L s then Inr (c\<lparr>options := (options c)((sec, lower L key) \<mapsto> s)\<rparr>)
          else Inl ValueError
      | _ \<Rightarrow> Inl TypeError)"

definition ini_ensure :: "ini \<Rightarrow> string \<Rightarrow> ini" where
  "ini_ensure c sec = (if has_section c sec then c else c\<lparr>sections := sections c @ [sec]\<rparr>)"

fun set_params :: "pylib \<Rightarrow> ini \<Rightarrow> pydict \<Rightarrow> pyerr option \<times> ini" where
  "set_params L c [] = (None, c)"
| "set_params L c (kv # kvs) =
     (case ini_set L c ''Parameters'' (fst kv) (PStr (str_of L (snd kv))) of
        Inl e \<Rightarrow> (Some e, c)
      | Inr c' \<Rightarrow> set_params L c' kvs)"

text \<open>
  \<^verbatim>\<open>save_config\<close>: the state carries the parser object, the second component is
  \<^verbatim>\<open>config.ini\<close> itself, written only when every assignment went through.
\<close>

definition save_config ::
  "pylib \<Rightarrow> ollama \<Rightarrow> ini option \<Rightarrow> pyerr option \<times> ollama \<times> ini option" where
  "save_config L s file =
     (let c1 = ini_ensure (config s) ''Ollama'' in
      case ini_set L c1 ''Ollama'' ''base_url'' (PStr (base_url s)) of
        Inl e \<Rightarrow> (Some e, s\<lparr>config := c1\<rparr>, file)
      | Inr c2 \<Rightarrow>
      (case ini_set L c2 ''Ollama'' ''model'' (model s) of
        Inl e \<Rightarrow> (Some e, s\<lparr>config := c2\<rparr>, file)
      | Inr c3 \<Rightarrow>
      (case ini_set L c3 ''Ollama'' ''system_prompt'' (system_prompt s) of
        Inl e \<Rightarrow> (Some e, s\<lparr>config := c3\<rparr>, file)
      | Inr c4 \<Rightarrow>
      (case set_params L (ini_ensure c4 ''Parameters'') (parameters s) of
        (Some e, c5) \<Rightarrow> (Some e, s\<lparr>config := c5\<rparr>, file)
      | (None, c5) \<Rightarrow> (None, s\<lparr>config := c5\<rparr>, Some c5)))))"

section \<open>Setters\<close>

datatype set_result = ParamSet | InvalidValue | UnknownParameter

text \<open>
  \<^verbatim>\<open>set_parameter\<close>. The three results stand for the three messages
  \<^verbatim>\<open>Parameter ... set to ...\<close>, \<^verbatim>\<open>Invalid value for ...\<close> and \<^verbatim>\<open>Unknown parameter: ...\<close>.
  The \<^verbatim>\<open>try\<close> covers the conversion, the assignment and \<^verbatim>\<open>save_config\<close>, and
  catches \<open>ValueError\<close> only.
\<close>

definition set_parameter ::
  "pylib \<Rightarrow> ollama \<Rightarrow> ini option \<Rightarrow> string \<Rightarrow> pyval
     \<Rightarrow> set_result outcome \<times> ollama \<times> ini option" where
  "set_parameter L s file param val =
     (if map_of (parameters s) param \<noteq> None then
        (case py_float L val of
           Inl e \<Rightarrow> (if is_ValueError e then Returns InvalidValue else Raises e, s, file)
         | Inr f \<Rightarrow>
             (case save_config L (s\<lparr>parameters := dict_set (parameters s) param (PFloat f)\<rparr>) file of
                (None, s', file') \<Rightarrow> (Returns ParamSet, s', file')
              | (Some e, s', file') \<Rightarrow>
                  (if is_ValueError e then Returns InvalidValue else Raises e, s', file')))
      else (Returns UnknownParameter, s, file))"

definition set_model ::
  "pylib \<Rightarrow> ollama \<Rightarrow> ini option \<Rightarrow> string \<Rightarrow> unit outcome \<times> ollama \<times> ini option" where
  "set_model L s file mdl =
     (case save_config L (s\<lparr>model := PStr mdl\<rparr>) file of
        (None, s', file') \<Rightarrow> (Returns (), s', file')
      | (Some e, s', file') \<Rightarrow> (Raises e, s', file'))"

definition set_system_prompt ::
  "pylib \<Rightarrow> ollama \<Rightarrow> ini option \<Rightarrow> string \<Rightarrow> unit outcome \<times> ollama \<times> ini option" where
  "set_system_prompt L s file prompt =
     (case save_config L (s\<lparr>system_prompt := PStr prompt\<rparr>) file of
        (None, s', file') \<Rightarrow> (Returns (), s', file')
      | (Some e, s', file') \<Rightarrow> (Raises e, s', file'))"

text \<open>\<^verbatim>\<open>clear_conversation\<close> returns the message \<^verbatim>\<open>Conversation cleared\<close>.\<close>

definition clear_conversation :: "ollama \<Rightarrow> string \<times> ollama" where
  "clear_conversation s = (''Conversation cleared'', s\<lparr>conversation := PList []\<rparr>)"

text \<open>
  The handler of the window that calls it, \<^verbatim>\<open>OllamaChatGUI.clear_chat\<close>: after the
  user has confirmed, it clears the conversation, forgets the current file and resets
  the chat name. Only the state is modelled, not the display.
\<close>

record gui =
  ollama :: ollama
  current_file_path :: "string option"

definition clear_chat :: "bool \<Rightarrow> gui \<Rightarrow> gui" where
  "clear_chat confirmed g =
     (if confirmed then
        g\<lparr>ollama := (snd (clear_conversation (ollama g)))\<lparr>chat_name := PStr []\<rparr>,
          current_file_path := None\<rparr>
      else g)"

section \<open>Talking to the server\<close>

text \<open>
  A line of a streamed body, as \<^verbatim>\<open>iter_lines\<close> yields it and \<^verbatim>\<open>json.loads\<close> reads
  it: an empty line, a line that is not JSON, or a line with its parsed value.
\<close>

datatype fragment = Blank | Malformed | Fragment pyval

text \<open>
  What the \<^verbatim>\<open>requests\<close> library gives back. \<open>status_error\<close> is the message of the
  \<open>HTTPError\<close> that \<^verbatim>\<open>raise_for_status\<close> raises, if it raises; \<open>body_lines\<close> are the
  lines received, and \<open>stream_error\<close> the message of the exception that ends the
  iteration, if one does; \<open>json_body\<close> is what \<^verbatim>\<open>response.json()\<close> returns, or the
  message of the \<^verbatim>\<open>requests.exceptions.JSONDecodeError\<close> it raises. All of these
  exceptions are \<open>RequestException\<close>s.
\<close>

record response =
  status_error :: "string option"
  body_lines :: "fragment list"
  stream_error :: "string option"
  json_body :: "string + pyval"

datatype http = ConnError string | Reply response

text \<open>The request body: the entries whose value is \<^verbatim>\<open>None\<close> are removed.\<close>

definition request_data :: "ollama \<Rightarrow> string \<Rightarrow> bool \<Rightarrow> pyval" where
  "request_data s prompt streaming =
     PDict (filter (\<lambda>kv. snd kv \<noteq> PNone)
       [(''model'', model s),
        (''prompt'', PStr prompt),
        (''stream'', PBool streaming),
        (''system'', if truthy (system_prompt s) then system_prompt s else PNone),
        (''options'', PDict (parameters s))])"

definition narrate :: "string \<Rightarrow> pyval" where
  "narrate msg = PStr (''Error communicating with Ollama: '' @ msg)"

text \<open>
  The loop over the lines of a streamed body. \<open>acc\<close> is \<^verbatim>\<open>response_text\<close>, \<open>sunk\<close>
  the arguments \<^verbatim>\<open>stream_callback\<close> has been called with so far, oldest first. The
  text is extended before the callback is called, and \<^verbatim>\<open>+=\<close> on a string accepts a
  string only.
\<close>

fun consume :: "fragment list \<Rightarrow> string \<Rightarrow> string list \<Rightarrow> pyerr option \<times> string \<times> string list" where
  "consume [] acc sunk = (None, acc, sunk)"
| "consume (Blank # ls) acc sunk = consume ls acc sunk"
| "consume (Malformed # ls) acc sunk = (Some JSONDecodeError, acc, sunk)"
| "consume (Fragment chunk # ls) acc sunk =
     (case py_contains chunk ''response'' of
        Inl e \<Rightarrow> (Some e, acc, sunk)
      | Inr False \<Rightarrow> consume ls acc sunk
      | Inr True \<Rightarrow>
          (case py_getitem chunk ''response'' of
             Inl e \<Rightarrow> (Some e, acc, sunk)
           | Inr (PStr delta) \<Rightarrow> consume ls (acc @ delta) (sunk @ [delta])
           | Inr _ \<Rightarrow> (Some TypeError, acc, sunk)))"

definition exchange :: "string \<Rightarrow> pyval \<Rightarrow> pyval" where
  "exchange prompt answer = PDict [(''user'', PStr prompt), (''assistant'', answer)]"

text \<open>
  \<^verbatim>\<open>chat\<close>. \<open>post\<close> is the server as \<^verbatim>\<open>requests.post\<close> sees it (address, body,
  streaming or not); \<open>streaming\<close> says whether a callback was passed. The result is what
  the call returns or raises, the calls made to the callback, and the new state. Only
  \<open>RequestException\<close> is caught. Without a callback, Python looks up
  \<^verbatim>\<open>self.conversation.append\<close> before it evaluates \<^verbatim>\<open>result["response"]\<close>, so a
  conversation that is no list fails first.
\<close>

definition chat ::
  "(string \<Rightarrow> pyval \<Rightarrow> bool \<Rightarrow> http) \<Rightarrow> ollama \<Rightarrow> string \<Rightarrow> bool
     \<Rightarrow> pyval outcome \<times> string list \<times> ollama" where
  "chat post s prompt streaming =
     (case post (api_generate s) (request_data s prompt streaming) streaming of
        ConnError msg \<Rightarrow> (Returns (narrate msg), [], s)
      | Reply r \<Rightarrow>
          (case status_error r of
             Some msg \<Rightarrow> (Returns (narrate msg), [], s)
           | None \<Rightarrow>
               if streaming then
                 (case consume (body_lines r) [] [] of
                    (Some e, acc, sunk) \<Rightarrow> (Raises e, sunk, s)
                  | (None, acc, sunk) \<Rightarrow>
                      (case stream_error r of
                         Some msg \<Rightarrow> (Returns (narrate msg), sunk, s)
                       | None \<Rightarrow>
                           (case py_append (conversation s) (exchange prompt (PStr acc)) of
                              Inl e \<Rightarrow> (Raises e, sunk, s)
                            | Inr c \<Rightarrow> (Returns (PStr acc), sunk, s\<lparr>conversation := c\<rparr>))))
               else
                 (case json_body r of
                    Inl msg \<Rightarrow> (Returns (narrate msg), [], s)
                  | Inr result \<Rightarrow>
                      (case py_append (conversation s) PNone of
                         Inl e \<Rightarrow> (Raises e, [], s)
                       | Inr _ \<Rightarrow>
                           (case py_getitem result ''response'' of
                              Inl e \<Rightarrow> (Raises e, [], s)
                            | Inr answer \<Rightarrow>
                                (case py_append (conversation s) (exchange prompt answer) of
                                   Inl e \<Rightarrow> (Raises e, [], s)
                                 | Inr c \<Rightarrow> (Returns answer, [], s\<lparr>conversation := c\<rparr>)))))))"

text \<open>The comprehension of \<^verbatim>\<open>get_models\<close>: \<^verbatim>\<open>model['name']\<close> of every element.\<close>

fun names_of :: "pyval list \<Rightarrow> pyerr + pyval list" where
  "names_of [] = Inr []"
| "names_of (m # ms) =
     (case py_getitem m ''name'' of
        Inl e \<Rightarrow> Inl e
      | Inr n \<Rightarrow> (case names_of ms of Inl e \<Rightarrow> Inl e | Inr ns \<Rightarrow> Inr (n # ns)))"

text \<open>\<^verbatim>\<open>get_models\<close>; \<open>get\<close> is the server as \<^verbatim>\<open>requests.get\<close> sees it.\<close>

definition get_models :: "(string \<Rightarrow> http) \<Rightarrow> ollama \<Rightarrow> pyval list outcome" where
  "get_models get s =
     (case get (api_models s) of
        ConnError msg \<Rightarrow> Returns []
      | Reply r \<Rightarrow>
          (case status_error r of
             Some msg \<Rightarrow> Returns []
           | None \<Rightarrow>
               (case json_body r of
                  Inl msg \<Rightarrow> Returns []
                | Inr result \<Rightarrow>
                    (case py_getitem result ''models'' of
                       Inl e \<Rightarrow> Raises e
                     | Inr ms \<Rightarrow>
                         (case py_iter ms of
                            Inl e \<Rightarrow> Raises e
                          | Inr xs \<Rightarrow>
                              (case names_of xs of Inl e \<Rightarrow> Raises e | Inr ns \<Rightarrow> Returns ns))))))"

section \<open>Chat files\<close>

text \<open>
  The files of the storage directory, by path. \<^verbatim>\<open>json.load\<close> reads back the value
  that \<^verbatim>\<open>json.dump\<close> wrote, so a file holding a JSON document is represented by that
  value; any other file is text that \<^verbatim>\<open>json.load\<close> rejects. Paths are POSIX paths,
  a path names one file, directories exist and files can be written.
\<close>

datatype content = JsonDoc pyval | TextDoc string

type_synonym files = "string \<rightharpoonup> content"

definition nl :: string where
  "nl = [CHR 0x0A]"

text \<open>The three readings of the clock that \<^verbatim>\<open>save_conversation\<close> formats.\<close>

record clock =
  stamp :: string
  iso :: string
  human :: string

datatype save_result = NothingToSave | SavedTo string

text \<open>The loop that writes the exchanges into the transcript; \<open>out\<close> is what the file holds.\<close>

fun write_exchanges :: "pylib \<Rightarrow> nat \<Rightarrow> pyval list \<Rightarrow> string \<Rightarrow> pyerr option \<times> string" where
  "write_exchanges L i [] out = (None, out)"
| "write_exchanges L i (ex # exs) out =
     (case py_getitem ex ''user'' of
        Inl e \<Rightarrow> (Some e, out)
      | Inr u \<Rightarrow>
          (let out1 = out @ ''['' @ str_of L (PInt (int i)) @ ''] User: '' @ str_of L u @ nl @ nl
           in case py_getitem ex ''assistant'' of
                Inl e \<Rightarrow> (Some e, out1)
              | Inr a \<Rightarrow>
                  write_exchanges L (Suc i) exs
                    (out1 @ ''['' @ str_of L (PInt (int i)) @ ''] Assistant: '' @ str_of L a
                       @ nl @ nl @ replicate 80 (CHR ''-'') @ nl @ nl)))"

definition transcript :: "pylib \<Rightarrow> clock \<Rightarrow> ollama \<Rightarrow> pyerr option \<times> string" where
  "transcript L clk s =
     (let out = ''Chat with Ollama ('' @ str_of L (model s) @ '') - '' @ human clk @ nl @ nl;
          out1 = (if truthy (system_prompt s)
                  then out @ ''System prompt: '' @ str_of L (system_prompt s) @ nl @ nl
                  else out)
      in case py_iter (conversation s) of
           Inl e \<Rightarrow> (Some e, out1)
         | Inr exs \<Rightarrow> write_exchanges L 1 exs out1)"

definition save_conversation ::
  "pylib \<Rightarrow> clock \<Rightarrow> ollama \<Rightarrow> files \<Rightarrow> string option
     \<Rightarrow> save_result outcome \<times> ollama \<times> files" where
  "save_conversation L clk s fs custom_name =
     (if \<not> truthy (conversation s) then (Returns NothingToSave, s, fs)
      else
        let filename_base =
              (case custom_name of
                 Some n \<Rightarrow> if n \<noteq> [] then n else ''chat_'' @ stamp clk
               | None \<Rightarrow> ''chat_'' @ stamp clk);
            s1 = s\<lparr>chat_name := PStr filename_base\<rparr>;
            filename = save_dir s @ ''/'' @ filename_base @ ''.json'';
            data = PDict
              [(''model'', model s),
               (''timestamp'', PStr (iso clk)),
               (''system_prompt'', system_prompt s),
               (''parameters'', PDict (parameters s)),
               (''chat_name'', PStr filename_base),
               (''conversation'', conversation s)];
            fs1 = fs(filename \<mapsto> JsonDoc data);
            text_filename = save_dir s @ ''/'' @ filename_base @ ''.txt''
        in case transcript L clk s of
             (Some e, out) \<Rightarrow> (Raises e, s1, fs1(text_filename \<mapsto> TextDoc out))
           | (None, out) \<Rightarrow> (Returns (SavedTo filename), s1, fs1(text_filename \<mapsto> TextDoc out)))"

text \<open>\<^verbatim>\<open>os.path.basename(filename).split('.')[0]\<close>\<close>

definition basename :: "string \<Rightarrow> string" where
  "basename p = rev (takeWhile (\<lambda>c. c \<noteq> CHR ''/'') (rev p))"

definition stem :: "string \<Rightarrow> string" where
  "stem p = takeWhile (\<lambda>c. c \<noteq> CHR ''.'') (basename p)"

text \<open>
  \<^verbatim>\<open>load_conversation\<close>. Everything is inside one \<^verbatim>\<open>try\<close> that returns \<^verbatim>\<open>False\<close>
  on any exception; the assignments made before the exception stay. A value that is
  not a dict fails at the first \<^verbatim>\<open>data.get\<close>; on a dict only the merge of the
  parameters can fail.
\<close>

definition load_conversation :: "ollama \<Rightarrow> files \<Rightarrow> string \<Rightarrow> bool \<times> ollama" where
  "load_conversation s fs filename =
     (case fs filename of
        None \<Rightarrow> (False, s)
      | Some (TextDoc txt) \<Rightarrow> (False, s)
      | Some (JsonDoc data) \<Rightarrow>
          (case py_get data ''model'' (model s) of
             Inl e \<Rightarrow> (False, s)
           | Inr m \<Rightarrow>
          (let s1 = s\<lparr>model := m\<rparr> in
           case py_get data ''system_prompt'' (PStr []) of
             Inl e \<Rightarrow> (False, s1)
           | Inr p \<Rightarrow>
          (let s2 = s1\<lparr>system_prompt := p\<rparr> in
           case py_contains data ''parameters'' of
             Inl e \<Rightarrow> (False, s2)
           | Inr present \<Rightarrow>
          (case (if present then
                   (case py_getitem data ''parameters'' of
                      Inl e \<Rightarrow> (Some e, parameters s2)
                    | Inr ps \<Rightarrow> dict_update (parameters s2) ps)
                 else (None, parameters s2)) of
             (Some e, ps') \<Rightarrow> (False, s2\<lparr>parameters := ps'\<rparr>)
           | (None, ps') \<Rightarrow>
          (let s3 = s2\<lparr>parameters := ps'\<rparr> in
           case py_get data ''conversation'' (PList []) of
             Inl e \<Rightarrow> (False, s3)
           | Inr c \<Rightarrow>
          (let s4 = s3\<lparr>conversation := c\<rparr> in
           case py_get data ''chat_name'' (PStr (stem filename)) of
             Inl e \<Rightarrow> (False, s4)
           | Inr n \<Rightarrow> (True, s4\<lparr>chat_name := n\<rparr>))))))))"

section \<open>Renaming a chat file\<close>

text \<open>\<^verbatim>\<open>os.path.dirname\<close> and \<^verbatim>\<open>os.path.join\<close> of \<^verbatim>\<open>posixpath\<close>.\<close>

definition dirname :: "string \<Rightarrow> string" where
  "dirname p =
     (let head = rev (dropWhile (\<lambda>c. c \<noteq> CHR ''/'') (rev p))
      in if head \<noteq> [] \<and> \<not> list_all (\<lambda>c. c = CHR ''/'') head
         then rev (dropWhile (\<lambda>c. c = CHR ''/'') (rev head))
         else head)"

definition path_join :: "string \<Rightarrow> string \<Rightarrow> string" where
  "path_join a b =
     (if prefix ''/'' b then b
      else if a = [] \<or> suffix ''/'' a then a @ b
      else a @ ''/'' @ b)"

text \<open>
  \<^verbatim>\<open>s.replace(old, new)\<close>: every occurrence of \<open>old\<close>, found from the left and not
  overlapping, becomes \<open>new\<close>.
\<close>

function str_replace :: "string \<Rightarrow> string \<Rightarrow> string \<Rightarrow> string" where
  "str_replace old new [] = (if old = [] then new else [])"
| "str_replace old new (c # cs) =
     (if old = [] then new @ c # str_replace old new cs
      else if prefix old (c # cs) then new @ str_replace old new (drop (length old) (c # cs))
      else c # str_replace old new cs)"
  by pat_completeness auto
termination
  by (relation "measure (\<lambda>(old, new, s). length s)") auto

text \<open>\<^verbatim>\<open>os.rename\<close> on POSIX: the source must exist, an existing target is replaced.\<close>

definition os_rename :: "files \<Rightarrow> string \<Rightarrow> string \<Rightarrow> files option" where
  "os_rename fs src dst =
     (case fs src of
        None \<Rightarrow> None
      | Some c \<Rightarrow> Some ((fs(src := None))(dst \<mapsto> c)))"

text \<open>
  The three results stand for \<^verbatim>\<open>(True, new_json_path)\<close>,
  \<^verbatim>\<open>(False, "A file with this name already exists")\<close> and \<^verbatim>\<open>(False, str(e))\<close>.
\<close>

datatype rename_result = Renamed string | NameExists | RenameFailed pyerr

definition rename_chat_file :: "files \<Rightarrow> string \<Rightarrow> string \<Rightarrow> rename_result \<times> files" where
  "rename_chat_file fs old_path new_name =
     (let dir_path = dirname old_path;
          new_json_path = path_join dir_path (new_name @ ''.json'')
      in if fs new_json_path \<noteq> None then (NameExists, fs)
         else
           (case os_rename fs old_path new_json_path of
              None \<Rightarrow> (RenameFailed FileNotFoundError, fs)
            | Some fs1 \<Rightarrow>
                (let old_txt_path = str_replace ''.json'' ''.txt'' old_path;
                     fs2 = (if fs1 old_txt_path \<noteq> None then
                              (case os_rename fs1 old_txt_path
                                      (path_join dir_path (new_name @ ''.txt'')) of
                                 None \<Rightarrow> fs1
                               | Some fs' \<Rightarrow> fs')
                            else fs1)
                 in case fs2 new_json_path of
                      None \<Rightarrow> (RenameFailed FileNotFoundError, fs2)
                    | Some (TextDoc txt) \<Rightarrow> (RenameFailed JSONDecodeError, fs2)
                    | Some (JsonDoc data) \<Rightarrow>
                        (case py_setitem data ''chat_name'' (PStr new_name) of
                           Inl e \<Rightarrow> (RenameFailed e, fs2)
                         | Inr data' \<Rightarrow>
                             (Renamed new_json_path, fs2(new_json_path \<mapsto> JsonDoc data'))))))"

section \<open>Vocabulary of the properties\<close>

text \<open>
  A line of a well-formed stream and what it carries: an empty line carries nothing, a
  JSON object carries the string under \<^verbatim>\<open>response\<close>, or nothing when it has no such
  field (as a closing fragment that only says \<^verbatim>\<open>done\<close>).
\<close>

fun carries :: "fragment \<Rightarrow> string option \<Rightarrow> bool" where
  "carries Blank d = (d = None)"
| "carries (Fragment (PDict kvs)) d = (map_of kvs ''response'' = map_option PStr d)"
| "carries l d = False"

fun delivered :: "string option list \<Rightarrow> string list" where
  "delivered [] = []"
| "delivered (None # ds) = delivered ds"
| "delivered (Some d # ds) = d # delivered ds"

section \<open>Concrete sessions, servers and files\<close>

definition demo_session :: ollama where
  "demo_session = new_session ''http://localhost:11434'' ''llama3.2''"

text \<open>A server that streams the deltas A, B, C and then a closing fragment.\<close>

definition abc_reply :: response where
  "abc_reply =
     \<lparr>status_error = None,
      body_lines =
        [Fragment (PDict [(''response'', PStr ''A''), (''done'', PBool False)]),
         Fragment (PDict [(''response'', PStr ''B''), (''done'', PBool False)]),
         Fragment (PDict [(''response'', PStr ''C''), (''done'', PBool False)]),
         Fragment (PDict [(''done'', PBool True)])],
      stream_error = None,
      json_body = Inl []\<rparr>"

text \<open>A stream whose second line is not JSON.\<close>

definition broken_reply :: response where
  "broken_reply =
     \<lparr>status_error = None,
      body_lines =
        [Fragment (PDict [(''response'', PStr ''A'')]),
         Malformed,
         Fragment (PDict [(''response'', PStr ''B'')])],
      stream_error = None,
      json_body = Inl []\<rparr>"

text \<open>An entry of the model list and the name it has.\<close>

fun named :: "pyval \<Rightarrow> pyval \<Rightarrow> bool" where
  "named (PDict kvs) n = (map_of kvs ''name'' = Some n)"
| "named m n = False"

text \<open>A server that lists the models a and b, and one that answers with an empty object.\<close>

definition tags_reply :: response where
  "tags_reply =
     \<lparr>status_error = None, body_lines = [], stream_error = None,
      json_body = Inr (PDict [(''models'',
         PList [PDict [(''name'', PStr ''a'')], PDict [(''name'', PStr ''b'')]])])\<rparr>"

definition empty_reply :: response where
  "empty_reply =
     \<lparr>status_error = None, body_lines = [], stream_error = None, json_body = Inr (PDict [])\<rparr>"

text \<open>
  A stand-in for the library, to run the examples: it agrees with Python on the values
  the examples use (lower-case option names, strings without a percent sign, the
  literal 0.5, the numbers of the default parameters).
\<close>

fun demo_str :: "pyval \<Rightarrow> string" where
  "demo_str (PStr s) = s"
| "demo_str (PInt i) =
     (if i = 1 then ''1'' else if i = 40 then ''40'' else if i = 2000 then ''2000'' else ''?'')"
| "demo_str (PFloat f) =
     (if f = PosInf then ''inf''
      else if f = Finite (1 / 2) then ''0.5''
      else if f = Finite (3152519739159347 / 4503599627370496) then ''0.7''
      else if f = Finite (8106479329266893 / 9007199254740992) then ''0.9''
      else ''?'')"
| "demo_str v = ''?''"

definition demo_lib :: pylib where
  "demo_lib =
     \<lparr>float_of_str = (\<lambda>s. if s = ''0.5'' then Some (Finite (1 / 2)) else None),
      float_of_int = (\<lambda>i. Some (Finite (of_int i))),
      str_of = demo_str,
      interp_ok = (\<lambda>s. \<not> List.member s (CHR ''%'')),
      lower = (\<lambda>s. s),
      ini_get = (\<lambda>c sec key. case options c (sec, key) of Some v \<Rightarrow> Inr v | None \<Rightarrow> Inl KeyError)\<rparr>"

text \<open>
  The invariant of the parameter mapping: its keys are the four fixed names and every
  value is a number (an integer or a float).
\<close>

fun numeric :: "pyval \<Rightarrow> bool" where
  "numeric (PInt i) = True"
| "numeric (PFloat f) = True"
| "numeric v = False"

definition params_ok :: "pydict \<Rightarrow> bool" where
  "params_ok ps = (fst ` set ps = fixed_keys \<and> list_all (\<lambda>kv. numeric (snd kv)) ps)"

text \<open>A chat file whose parameters hold a key that is not one of the four.\<close>

definition odd_files :: files where
  "odd_files =
     [''chat_history/odd.json'' \<mapsto>
        JsonDoc (PDict [(''parameters'', PDict [(''mood'', PStr ''calm'')])])]"

text \<open>
  Reading a record that is a JSON object: the value of a field or its default, and the
  merge of its \<^verbatim>\<open>parameters\<close> field, if it has one, into the current mapping.
\<close>

definition field :: "pydict \<Rightarrow> string \<Rightarrow> pyval \<Rightarrow> pyval" where
  "field kvs k dflt = (case map_of kvs k of Some v \<Rightarrow> v | None \<Rightarrow> dflt)"

definition merged :: "ollama \<Rightarrow> pydict \<Rightarrow> pyerr option \<times> pydict" where
  "merged s kvs =
     (case map_of kvs ''parameters'' of
        None \<Rightarrow> (None, parameters s)
      | Some x \<Rightarrow> dict_update (parameters s) x)"

text \<open>An exchange as \<^verbatim>\<open>save_conversation\<close> can write it: a dict with both sides.\<close>

fun is_exchange :: "pyval \<Rightarrow> bool" where
  "is_exchange (PDict kvs) = (map_of kvs ''user'' \<noteq> None \<and> map_of kvs ''assistant'' \<noteq> None)"
| "is_exchange v = False"

text \<open>A chat file whose parameters are a number, and a session with a saved exchange.\<close>

definition bad_files :: files where
  "bad_files =
     [''chat_history/bad.json'' \<mapsto>
        JsonDoc (PDict [(''model'', PStr ''other''), (''parameters'', PInt 5)])]"

definition talk_session :: ollama where
  "talk_session = demo_session\<lparr>conversation := PList [exchange ''hi'' (PStr ''hello'')]\<rparr>"

definition demo_clock :: clock where
  "demo_clock = \<lparr>stamp = ''20240101_120000'', iso = ''2024-01-01T12:00:00'',
                 human = ''2024-01-01 12:00:00''\<rparr>"

text \<open>A storage directory with a chat and its transcript, and another chat.\<close>

definition chat_files :: files where
  "chat_files =
     [''chat_history/a.json'' \<mapsto> JsonDoc (PDict [(''chat_name'', PStr ''a'')]),
      ''chat_history/a.txt'' \<mapsto> TextDoc ''Chat with Ollama'',
      ''chat_history/b.json'' \<mapsto> JsonDoc (PDict [(''chat_name'', PStr ''b'')])]"

text \<open>
  The message of the request exception that ends a call of \<^verbatim>\<open>chat\<close>, if one does:
  the request itself fails, the status is an error status, the stream breaks after its
  lines have been consumed without another error, or (without a callback) the body is
  not JSON.
\<close>

definition request_failure :: "http \<Rightarrow> bool \<Rightarrow> string option" where
  "request_failure h streaming =
     (case h of
        ConnError msg \<Rightarrow> Some msg
      | Reply r \<Rightarrow>
          (case status_error r of
             Some msg \<Rightarrow> Some msg
           | None \<Rightarrow>
               if streaming then
                 (case fst (consume (body_lines r) [] []) of
                    None \<Rightarrow> stream_error r
                  | Some e \<Rightarrow> None)
               else (case json_body r of Inl msg \<Rightarrow> Some msg | Inr result \<Rightarrow> None)))"

text \<open>
  The configuration of a session can be written: the settings that \<^verbatim>\<open>save_config\<close>
  stores are strings that \<^verbatim>\<open>configparser\<close> accepts, and so are the texts of the
  parameter values.
\<close>

definition config_writable :: "pylib \<Rightarrow> ollama \<Rightarrow> bool" where
  "config_writable L s =
     (interp_ok L (base_url s)
      \<and> (case model s of PStr m \<Rightarrow> interp_ok L m | _ \<Rightarrow> False)
      \<and> (case system_prompt s of PStr p \<Rightarrow> interp_ok L p | _ \<Rightarrow> False)
      \<and> list_all (\<lambda>kv. interp_ok L (str_of L (snd kv))) (parameters s))"

text \<open>
  Values that are no sequence at all (\<^verbatim>\<open>dict.update\<close> raises \<open>TypeError\<close> on them), and
  a well-formed element of a sequence of pairs: a key that is a string, and its value.
\<close>

fun scalar :: "pyval \<Rightarrow> bool" where
  "scalar PNone = True"
| "scalar (PBool b) = True"
| "scalar (PInt i) = True"
| "scalar (PFloat f) = True"
| "scalar v = False"

definition entry :: "string \<times> pyval \<Rightarrow> pyval" where
  "entry kv = PList [PStr (fst kv), snd kv]"

text \<open>
  The record at a path stays within the string-keyed mappings of this theory: the merge
  of its parameters does not stop at a pair whose key is a number, a boolean or
  \<^verbatim>\<open>null\<close>.
\<close>

definition string_keyed :: "ollama \<Rightarrow> files \<Rightarrow> string \<Rightarrow> bool" where
  "string_keyed s fs path =
     (case fs path of
        Some (JsonDoc (PDict kvs)) \<Rightarrow> fst (merged s kvs) \<noteq> Some NonStringKey
      | _ \<Rightarrow> True)"

text \<open>A chat file whose parameters are a list: one pair, then a number.\<close>

definition half_files :: files where
  "half_files =
     [''chat_history/half.json'' \<mapsto>
        JsonDoc (PDict [(''parameters'',
          PList [PList [PStr ''temperature'', PInt 1], PInt 5])])]"

text \<open>The storage directory after a chat has been saved under the name \<^verbatim>\<open>a.json\<close>.\<close>

definition dotted_files :: files where
  "dotted_files =
     snd (snd (save_conversation demo_lib demo_clock talk_session Map.empty (Some ''a.json'')))"

section \<open>Properties\<close>

subsection \<open>Streaming\<close>


lemma consume_malformed:
  "list_all2 carries pre ds \<Longrightarrow>
   consume (pre @ Malformed # rest) acc sunk =
     (Some JSONDecodeError, acc @ concat (delivered ds), sunk @ delivered ds)"
proof (induction pre ds arbitrary: acc sunk rule: list_all2_induct)
  case Nil
  then show ?case by simp
next
  case (Cons l ls d ds)
  show ?case
  proof (cases l)
    case Blank
    with Cons show ?thesis by simp
  next
    case Malformed
    with Cons show ?thesis by simp
  next
    case (Fragment chunk)
    with Cons.hyps(1) obtain kvs where c: "chunk = PDict kvs"
      by (cases chunk) auto
    show ?thesis
    proof (cases d)
      case None
      with Fragment c Cons show ?thesis by simp
    next
      case (Some x)
      with Fragment c Cons show ?thesis by simp
    qed
  qed
qed



text \<open>
  C3, as the code has it. A line that is not JSON is not skipped: \<^verbatim>\<open>json.loads\<close>
  raises, \<^verbatim>\<open>chat\<close> catches request exceptions only, and the error leaves the call.
  The callback has then received the deltas of the lines before it, the lines after it
  are not read, and nothing is appended to the log.
\<close>

theorem chat_malformed_fragment_raises:
  assumes "post (api_generate s) (request_data s prompt True) True = Reply r"
    and "status_error r = None"
    and "body_lines r = pre @ Malformed # rest"
    and "list_all2 carries pre ds"
  shows "chat post s prompt True = (Raises JSONDecodeError, delivered ds, s)"
  using assms consume_malformed [OF assms(4), of rest "[]" "[]"]
  by (simp add: chat_def)

theorem chat_malformed_fragment_raises_witness:
  "chat (\<lambda>url body streaming. Reply broken_reply) demo_session ''hi'' True =
      (Raises JSONDecodeError, [''A''], demo_session)
   \<and> body_lines broken_reply =
       [Fragment (PDict [(''response'', PStr ''A'')])] @ Malformed #
       [Fragment (PDict [(''response'', PStr ''B'')])]"
  using chat_malformed_fragment_raises [of "\<lambda>url body streaming. Reply broken_reply"
      demo_session "''hi''" broken_reply "[Fragment (PDict [(''response'', PStr ''A'')])]"
      "[Fragment (PDict [(''response'', PStr ''B'')])]" "[Some ''A'']"]
  by (simp add: broken_reply_def)

text \<open>
  C3 as stated fails: with a malformed second line the call raises instead of
  returning the text of the well-formed lines.
\<close>

theorem chat_malformed_fragment_counterexample:
  "chat (\<lambda>url body streaming. Reply broken_reply) demo_session ''hi'' True
     \<noteq> (Returns (PStr ''AB''), [''A'', ''B''],
         demo_session\<lparr>conversation := PList [exchange ''hi'' (PStr ''AB'')]\<rparr>)
   \<and> fst (chat (\<lambda>url body streaming. Reply broken_reply) demo_session ''hi'' True)
       = Raises JSONDecodeError"
  by (simp add: chat_def broken_reply_def)

subsection \<open>Clearing\<close>

text \<open>
  C10, as the code has it. \<^verbatim>\<open>clear_conversation\<close> empties the log and changes nothing
  else: also the chat name stays. The chat name and the current file are reset by the
  handler \<^verbatim>\<open>clear_chat\<close> of the window, once the user has confirmed.
\<close>

theorem clear_conversation_frame:
  "clear_conversation s = (''Conversation cleared'', s\<lparr>conversation := PList []\<rparr>)
   \<and> chat_name (snd (clear_conversation s)) = chat_name s
   \<and> base_url (snd (clear_conversation s)) = base_url s
   \<and> model (snd (clear_conversation s)) = model s
   \<and> system_prompt (snd (clear_conversation s)) = system_prompt s
   \<and> parameters (snd (clear_conversation s)) = parameters s
   \<and> clear_chat True g =
       g\<lparr>ollama := (ollama g)\<lparr>conversation := PList [], chat_name := PStr []\<rparr>,
         current_file_path := None\<rparr>
   \<and> clear_chat False g = g"
  by (simp add: clear_conversation_def clear_chat_def)

text \<open>C10 as stated fails: a session named t1 is still named t1 after the call.\<close>

theorem clear_conversation_counterexample:
  "chat_name (snd (clear_conversation (demo_session\<lparr>chat_name := PStr ''t1''\<rparr>))) = PStr ''t1''
   \<and> chat_name (snd (clear_conversation (demo_session\<lparr>chat_name := PStr ''t1''\<rparr>))) \<noteq> PStr []"
  by (simp add: clear_conversation_def)

subsection \<open>Transport failures\<close>

lemma chat_request_failure:
  assumes "request_failure (post (api_generate s) (request_data s prompt streaming) streaming)
             streaming = Some msg"
  shows "\<exists>sunk. chat post s prompt streaming = (Returns (narrate msg), sunk, s)"
proof (cases "post (api_generate s) (request_data s prompt streaming) streaming")
  case (ConnError m)
  with assms show ?thesis
    by (simp add: chat_def request_failure_def)
next
  case (Reply r)
  show ?thesis
  proof (cases "status_error r")
    case (Some m)
    with assms Reply show ?thesis
      by (simp add: chat_def request_failure_def)
  next
    case None
    show ?thesis
    proof (cases streaming)
      case True
      obtain e acc sunk where c: "consume (body_lines r) [] [] = (e, acc, sunk)"
        by (cases "consume (body_lines r) [] []") auto
      with assms Reply None True have "e = None" "stream_error r = Some msg"
        by (auto simp: request_failure_def split: option.splits)
      with Reply None True c show ?thesis
        by (simp add: chat_def)
    next
      case False
      with assms Reply None have "json_body r = Inl msg"
        by (auto simp: request_failure_def split: sum.splits)
      with Reply None False show ?thesis
        by (simp add: chat_def)
    qed
  qed
qed

lemma chat_returns_appended:
  assumes "chat post s prompt streaming = (Returns v, sunk, s')"
    and "request_failure (post (api_generate s) (request_data s prompt streaming) streaming)
           streaming = None"
  shows "\<exists>hist. conversation s = PList hist
            \<and> s' = s\<lparr>conversation := PList (hist @ [exchange prompt v])\<rparr>"
proof (cases "post (api_generate s) (request_data s prompt streaming) streaming")
  case (ConnError m)
  with assms(2) show ?thesis
    by (simp add: request_failure_def)
next
  case (Reply r)
  with assms(2) have st: "status_error r = None"
    by (auto simp: request_failure_def split: option.splits)
  show ?thesis
  proof (cases streaming)
    case True
    obtain e acc sk where c: "consume (body_lines r) [] [] = (e, acc, sk)"
      by (cases "consume (body_lines r) [] []") auto
    from assms(1) Reply st True c have e: "e = None"
      by (auto simp: chat_def split: option.splits)
    with assms(2) Reply st True c have se: "stream_error r = None"
      by (simp add: request_failure_def)
    from assms(1) Reply st True c e se show ?thesis
      by (cases "conversation s") (auto simp: chat_def)
  next
    case False
    with assms(2) Reply st obtain result where jb: "json_body r = Inr result"
      by (auto simp: request_failure_def split: sum.splits)
    from assms(1) Reply st False jb show ?thesis
      by (cases "conversation s") (auto simp: chat_def split: sum.splits)
  qed
qed

text \<open>
  C2, as the code has it. When the request fails (\<^verbatim>\<open>requests.post\<close> raises, or the
  status is an error status) \<^verbatim>\<open>chat\<close> does not raise and returns a non-empty text
  that narrates the error, but the session is left as it was: no exchange is appended.
  The same holds for every request exception that ends the call. Every other call that
  returns has appended exactly one exchange, made of the prompt and the returned answer.
\<close>

theorem chat_transport_failure:
  "(post (api_generate s) (request_data s prompt streaming) streaming = ConnError msg
      \<or> (\<exists>r. post (api_generate s) (request_data s prompt streaming) streaming = Reply r
             \<and> status_error r = Some msg)
    \<longrightarrow> chat post s prompt streaming =
          (Returns (PStr (''Error communicating with Ollama: '' @ msg)), [], s))
   \<and> (request_failure (post (api_generate s) (request_data s prompt streaming) streaming)
         streaming = Some msg
    \<longrightarrow> (\<exists>sunk'. chat post s prompt streaming =
          (Returns (PStr (''Error communicating with Ollama: '' @ msg)), sunk', s)))
   \<and> (chat post s prompt streaming = (Returns v, sunk, s')
       \<and> request_failure (post (api_generate s) (request_data s prompt streaming) streaming)
            streaming = None
    \<longrightarrow> (\<exists>hist. conversation s = PList hist
            \<and> s' = s\<lparr>conversation := PList (hist @ [exchange prompt v])\<rparr>))"
proof (intro conjI impI)
  assume "post (api_generate s) (request_data s prompt streaming) streaming = ConnError msg
      \<or> (\<exists>r. post (api_generate s) (request_data s prompt streaming) streaming = Reply r
             \<and> status_error r = Some msg)"
  then show "chat post s prompt streaming =
          (Returns (PStr (''Error communicating with Ollama: '' @ msg)), [], s)"
    by (auto simp: chat_def narrate_def)
next
  assume "request_failure (post (api_generate s) (request_data s prompt streaming) streaming)
         streaming = Some msg"
  with chat_request_failure [of post s prompt streaming msg]
  show "\<exists>sunk'. chat post s prompt streaming =
          (Returns (PStr (''Error communicating with Ollama: '' @ msg)), sunk', s)"
    by (simp add: narrate_def)
next
  assume "chat post s prompt streaming = (Returns v, sunk, s')
       \<and> request_failure (post (api_generate s) (request_data s prompt streaming) streaming)
            streaming = None"
  then show "\<exists>hist. conversation s = PList hist
            \<and> s' = s\<lparr>conversation := PList (hist @ [exchange prompt v])\<rparr>"
    using chat_returns_appended [of post s prompt streaming v sunk s'] by blast
qed

theorem chat_transport_failure_witness:
  "chat (\<lambda>url body streaming. ConnError ''Connection refused'') demo_session ''hi'' True =
     (Returns (PStr ''Error communicating with Ollama: Connection refused''), [], demo_session)
   \<and> snd (snd (chat (\<lambda>url body streaming. Reply abc_reply) demo_session ''hi'' True)) =
       demo_session\<lparr>conversation := PList [exchange ''hi'' (PStr ''ABC'')]\<rparr>"
proof -
  have c: "chat (\<lambda>url body streaming. Reply abc_reply) demo_session ''hi'' True =
     (Returns (PStr ''ABC''), [''A'', ''B'', ''C''],
      snd (snd (chat (\<lambda>url body streaming. Reply abc_reply) demo_session ''hi'' True)))"
    by (simp add: chat_def abc_reply_def demo_session_def new_session_def)
  have f: "request_failure (Reply abc_reply) True = None"
    by (simp add: request_failure_def abc_reply_def)
  have h: "conversation demo_session = PList []"
    by (simp add: demo_session_def new_session_def)
  from chat_transport_failure [of "\<lambda>url body streaming. ConnError ''Connection refused''"
      demo_session "''hi''" True "''Connection refused''"]
  have 1: "chat (\<lambda>url body streaming. ConnError ''Connection refused'') demo_session ''hi'' True =
     (Returns (PStr ''Error communicating with Ollama: Connection refused''), [], demo_session)"
    by simp
  from chat_transport_failure [of "\<lambda>url body streaming. Reply abc_reply"
      demo_session "''hi''" True "[]" "PStr ''ABC''" "[''A'', ''B'', ''C'']"
      "snd (snd (chat (\<lambda>url body streaming. Reply abc_reply) demo_session ''hi'' True))"] c f h
  have 2: "snd (snd (chat (\<lambda>url body streaming. Reply abc_reply) demo_session ''hi'' True)) =
       demo_session\<lparr>conversation := PList [exchange ''hi'' (PStr ''ABC'')]\<rparr>"
    by simp
  from 1 2 show ?thesis by simp
qed

text \<open>
  C2 as stated fails: against a server that refuses the connection the log is still
  empty after the call, it does not hold the exchange with the narrating text.
\<close>

theorem chat_transport_failure_counterexample:
  "conversation (snd (snd (chat (\<lambda>url body streaming. ConnError ''Connection refused'')
       demo_session ''hi'' True))) = PList []
   \<and> conversation (snd (snd (chat (\<lambda>url body streaming. ConnError ''Connection refused'')
       demo_session ''hi'' True)))
      \<noteq> PList [exchange ''hi'' (PStr ''Error communicating with Ollama: Connection refused'')]"
  by (simp add: chat_def demo_session_def new_session_def)

subsection \<open>Listing the models\<close>

lemma names_of_named: "list_all2 named ms ns \<Longrightarrow> names_of ms = Inr ns"
proof (induction ms ns rule: list_all2_induct)
  case Nil
  then show ?case by simp
next
  case (Cons m ms n ns)
  from Cons.hyps(1) obtain kvs where "m = PDict kvs" "map_of kvs ''name'' = Some n"
    by (cases m) auto
  with Cons show ?case by simp
qed

lemma names_of_complete:
  "names_of ms = Inr ns \<Longrightarrow> list_all2 (\<lambda>m n. py_getitem m ''name'' = Inr n) ms ns"
  by (induction ms arbitrary: ns) (auto split: sum.splits)

text \<open>
  C8, as the code has it. \<^verbatim>\<open>get_models\<close> returns the empty list when the request
  fails, the status is an error status or the body is not JSON. On a JSON object whose
  \<^verbatim>\<open>models\<close> field is a list of objects with a \<^verbatim>\<open>name\<close> it returns exactly these
  names, in order. A body without the field makes the call raise (only request
  exceptions are caught); and whatever list the call returns on a JSON body is the
  complete list of the names, never a part of it.
\<close>

theorem get_models_result:
  "(get (api_models s) = ConnError msg
      \<or> (\<exists>r. get (api_models s) = Reply r
             \<and> (status_error r = Some msg \<or> status_error r = None \<and> json_body r = Inl msg))
    \<longrightarrow> get_models get s = Returns [])
   \<and> (get (api_models s) = Reply r' \<and> status_error r' = None
        \<and> json_body r' = Inr (PDict kvs) \<and> map_of kvs ''models'' = Some (PList ms)
        \<and> list_all2 named ms ns
    \<longrightarrow> get_models get s = Returns ns)
   \<and> (get (api_models s) = Reply r' \<and> status_error r' = None
        \<and> json_body r' = Inr body \<and> py_getitem body ''models'' = Inl e
    \<longrightarrow> get_models get s = Raises e)
   \<and> (get (api_models s) = Reply r' \<and> status_error r' = None
        \<and> json_body r' = Inr body \<and> get_models get s = Returns ns'
    \<longrightarrow> (\<exists>v xs. py_getitem body ''models'' = Inr v \<and> py_iter v = Inr xs
            \<and> list_all2 (\<lambda>m n. py_getitem m ''name'' = Inr n) xs ns'))"
  using names_of_named [of ms ns]
  by (auto simp: get_models_def dest: names_of_complete split: sum.splits)

theorem get_models_result_witness:
  "get_models (\<lambda>url. ConnError ''Connection refused'') demo_session = Returns []
   \<and> get_models (\<lambda>url. Reply tags_reply) demo_session = Returns [PStr ''a'', PStr ''b'']
   \<and> get_models (\<lambda>url. Reply empty_reply) demo_session = Raises KeyError"
  using get_models_result [of "\<lambda>url. ConnError ''Connection refused''" demo_session
      "''Connection refused''" tags_reply "[]" "[]" "[]" PNone KeyError "[]"]
    get_models_result [of "\<lambda>url. Reply tags_reply" demo_session
      "[]" tags_reply "[(''models'',
         PList [PDict [(''name'', PStr ''a'')], PDict [(''name'', PStr ''b'')]])]"
      "[PDict [(''name'', PStr ''a'')], PDict [(''name'', PStr ''b'')]]"
      "[PStr ''a'', PStr ''b'']" PNone KeyError "[]"]
    get_models_result [of "\<lambda>url. Reply empty_reply" demo_session
      "[]" empty_reply "[]" "[]" "[]" "PDict []" KeyError "[]"]
  by (simp add: tags_reply_def empty_reply_def)

text \<open>
  C8 as stated fails: on a body without the \<^verbatim>\<open>models\<close> field the call raises
  \<open>KeyError\<close> instead of returning the empty list.
\<close>

theorem get_models_counterexample:
  "get_models (\<lambda>url. Reply empty_reply) demo_session = Raises KeyError
   \<and> get_models (\<lambda>url. Reply empty_reply) demo_session \<noteq> Returns []"
  by (simp add: get_models_def empty_reply_def)

subsection \<open>Setting a parameter\<close>

lemma map_of_dict_set: "map_of (dict_set d k v) = (map_of d)(k \<mapsto> v)"
  by (induction d) auto

lemma keys_dict_set: "fst ` set (dict_set d k v) = insert k (fst ` set d)"
  by (induction d k v rule: dict_set.induct) force+


lemma save_config_frame:
  "save_config L s f = (e, s', f') \<Longrightarrow> s' = s\<lparr>config := config s'\<rparr>"
  unfolding save_config_def Let_def
  by (auto split: sum.splits prod.splits option.splits)







lemma save_config_not_writable:
  assumes "fst (save_config L s cfg) = None"
  shows "config_writable L s"
proof -
  have h: "list_all (\<lambda>kv. interp_ok L (str_of L (snd kv))) kvs"
    if "set_params L c kvs = (None, c')" for c c' kvs
    using that by (induction kvs arbitrary: c) (auto simp: ini_set_def split: if_splits)
  from assms show ?thesis
    by (auto simp: config_writable_def save_config_def Let_def ini_set_def
        split: pyval.splits sum.splits if_splits prod.splits option.splits dest: h)
qed




subsection \<open>The parameter mapping\<close>

lemma params_ok_default: "params_ok default_parameters"
  by (auto simp: params_ok_def default_parameters_def fixed_keys_def)

lemma numeric_dict_set:
  "list_all (\<lambda>kv. numeric (snd kv)) d \<Longrightarrow> numeric v \<Longrightarrow>
   list_all (\<lambda>kv. numeric (snd kv)) (dict_set d k v)"
  by (induction d k v rule: dict_set.induct) auto

lemma params_ok_dict_set:
  "params_ok ps \<Longrightarrow> k \<in> fst ` set ps \<Longrightarrow> numeric v \<Longrightarrow> params_ok (dict_set ps k v)"
  unfolding params_ok_def
  by (simp add: keys_dict_set numeric_dict_set insert_absorb)

lemma read_parameters_ok:
  "read_parameters L c ks ps = Inr ps' \<Longrightarrow> set ks \<subseteq> fst ` set ps \<Longrightarrow> params_ok ps \<Longrightarrow>
   params_ok ps'"
proof (induction ks arbitrary: ps)
  case Nil
  then show ?case by simp
next
  case (Cons k ks)
  show ?case
  proof (cases "has_option L c ''Parameters'' k")
    case False
    with Cons show ?thesis by simp
  next
    case True
    with Cons.prems(1) obtain f where
      rest: "read_parameters L c ks (dict_set ps k (PFloat f)) = Inr ps'"
      by (auto split: sum.splits)
    from Cons.prems have ok: "params_ok (dict_set ps k (PFloat f))"
      by (simp add: params_ok_dict_set)
    from Cons.prems(2) have "set ks \<subseteq> fst ` set (dict_set ps k (PFloat f))"
      by (auto simp: keys_dict_set)
    from Cons.IH [OF rest this ok] show ?thesis .
  qed
qed

lemma init_params_ok:
  assumes "init L f url mdl = Inr s"
  shows "params_ok (parameters s)"
proof (cases f)
  case NoFile
  with assms show ?thesis
    by (auto simp: init_def new_session_def params_ok_default)
next
  case Unparsable
  with assms show ?thesis
    by (simp add: init_def)
next
  case (Parsed c)
  with assms have "parameters s = default_parameters
    \<or> (\<exists>ps. read_parameters L c (map fst default_parameters) default_parameters = Inr ps
           \<and> parameters s = ps)"
    by (auto simp: init_def new_session_def Let_def split: if_splits sum.splits)
  then show ?thesis
  proof
    assume "parameters s = default_parameters"
    then show ?thesis by (simp add: params_ok_default)
  next
    assume "\<exists>ps. read_parameters L c (map fst default_parameters) default_parameters = Inr ps
                 \<and> parameters s = ps"
    then have rp: "read_parameters L c (map fst default_parameters) default_parameters
                     = Inr (parameters s)"
      by auto
    from read_parameters_ok [OF rp _ params_ok_default] show ?thesis by simp
  qed
qed

lemma save_config_parameters:
  "parameters (fst (snd (save_config L s f))) = parameters s"
proof -
  obtain e s' f' where sc: "save_config L s f = (e, s', f')"
    by (cases "save_config L s f") auto
  from save_config_frame [OF sc] have "parameters s' = parameters s"
    by (metis ollama.select_convs(10) ollama.surjective ollama.update_convs(11))
  with sc show ?thesis by simp
qed

lemma set_parameter_parameters:
  "parameters (fst (snd (set_parameter L s cfg name v))) = parameters s
   \<or> (name \<in> fst ` set (parameters s)
      \<and> (\<exists>f. parameters (fst (snd (set_parameter L s cfg name v)))
               = dict_set (parameters s) name (PFloat f)))"
proof (cases "map_of (parameters s) name")
  case None
  then show ?thesis by (simp add: set_parameter_def)
next
  case (Some a)
  then have mem: "name \<in> fst ` set (parameters s)"
    by (metis domI dom_map_of_conv_image_fst)
  show ?thesis
  proof (cases "py_float L v")
    case (Inl e)
    with Some show ?thesis by (simp add: set_parameter_def)
  next
    case (Inr f)
    have "parameters (fst (snd (set_parameter L s cfg name v)))
            = parameters (fst (snd (save_config L
                (s\<lparr>parameters := dict_set (parameters s) name (PFloat f)\<rparr>) cfg)))"
      using Some Inr by (simp add: set_parameter_def split: prod.splits option.splits)
    then have "parameters (fst (snd (set_parameter L s cfg name v)))
            = dict_set (parameters s) name (PFloat f)"
      by (simp add: save_config_parameters)
    with mem show ?thesis by blast
  qed
qed

lemma keys_fold_dict_set:
  "fst ` set d \<subseteq> fst ` set (fold (\<lambda>kv d'. dict_set d' (fst kv) (snd kv)) kvs d)"
proof (induction kvs arbitrary: d)
  case Nil
  then show ?case by simp
next
  case (Cons kv kvs)
  have "fst ` set d \<subseteq> fst ` set (dict_set d (fst kv) (snd kv))"
    by (auto simp: keys_dict_set)
  with Cons [of "dict_set d (fst kv) (snd kv)"] show ?case
    by auto
qed

lemma keys_update_seq: "fst ` set d \<subseteq> fst ` set (snd (update_seq d es))"
proof (induction es arbitrary: d)
  case Nil
  then show ?case by simp
next
  case (Cons e es)
  show ?case
  proof (cases "pair_of e")
    case (Inl err)
    then show ?thesis by simp
  next
    case (Inr kv)
    obtain k v where kv: "kv = (k, v)" by (cases kv)
    show ?thesis
    proof (cases k)
      case (PStr x)
      have "fst ` set d \<subseteq> fst ` set (dict_set d x v)"
        by (auto simp: keys_dict_set)
      with Cons [of "dict_set d x v"] Inr kv PStr show ?thesis
        by auto
    qed (use Inr kv in simp_all)
  qed
qed

lemma keys_dict_update: "fst ` set d \<subseteq> fst ` set (snd (dict_update d x))"
  by (cases x) (simp_all add: keys_update_seq keys_fold_dict_set)

lemma load_conversation_dict:
  assumes "fs path = Some (JsonDoc (PDict kvs))"
  shows "load_conversation s fs path =
     (if fst (merged s kvs) = None then
        (True, s\<lparr>model := field kvs ''model'' (model s),
                  system_prompt := field kvs ''system_prompt'' (PStr []),
                  parameters := snd (merged s kvs),
                  conversation := field kvs ''conversation'' (PList []),
                  chat_name := field kvs ''chat_name'' (PStr (stem path))\<rparr>)
      else
        (False, s\<lparr>model := field kvs ''model'' (model s),
                   system_prompt := field kvs ''system_prompt'' (PStr []),
                   parameters := snd (merged s kvs)\<rparr>))"
proof (cases "map_of kvs ''parameters''")
  case None
  with assms show ?thesis
    by (simp add: load_conversation_def py_get_def field_def merged_def)
next
  case (Some x)
  obtain e ps where u: "dict_update (parameters s) x = (e, ps)"
    by (cases "dict_update (parameters s) x") auto
  show ?thesis
  proof (cases e)
    case None
    with assms Some u show ?thesis
      by (simp add: load_conversation_def py_get_def field_def merged_def)
  next
    case (Some err)
    with assms \<open>map_of kvs ''parameters'' = Some x\<close> u show ?thesis
      by (simp add: load_conversation_def py_get_def field_def merged_def)
  qed
qed

lemma load_conversation_not_dict:
  assumes "fs path = None \<or> (\<exists>body. fs path = Some (TextDoc body))
           \<or> (\<exists>data. fs path = Some (JsonDoc data) \<and> (\<forall>kvs. data \<noteq> PDict kvs))"
  shows "load_conversation s fs path = (False, s)"
  using assms
proof (elim disjE exE conjE)
  assume "fs path = None"
  then show ?thesis by (simp add: load_conversation_def)
next
  fix body
  assume "fs path = Some (TextDoc body)"
  then show ?thesis by (simp add: load_conversation_def)
next
  fix data
  assume "fs path = Some (JsonDoc data)" "\<forall>kvs. data \<noteq> PDict kvs"
  then show ?thesis
    by (cases data) (simp_all add: load_conversation_def py_get_def)
qed

lemma keys_merged: "fst ` set (parameters s) \<subseteq> fst ` set (snd (merged s kvs))"
  by (simp add: merged_def keys_dict_update split: option.splits)

lemma load_conversation_keys:
  "fst ` set (parameters s) \<subseteq> fst ` set (parameters (snd (load_conversation s fs path)))"
proof (cases "\<exists>kvs. fs path = Some (JsonDoc (PDict kvs))")
  case True
  then obtain kvs where "fs path = Some (JsonDoc (PDict kvs))" by blast
  with load_conversation_dict [where s = s and fs = fs and path = path and kvs = kvs]
    keys_merged [of s kvs] show ?thesis
    by simp
next
  case False
  have "fs path = None \<or> (\<exists>body. fs path = Some (TextDoc body))
           \<or> (\<exists>data. fs path = Some (JsonDoc data) \<and> (\<forall>kvs. data \<noteq> PDict kvs))"
  proof (cases "fs path")
    case None
    then show ?thesis by simp
  next
    case (Some doc)
    with False show ?thesis
      by (cases doc) auto
  qed
  with load_conversation_not_dict [where s = s and fs = fs and path = path] show ?thesis
    by simp
qed

lemma keys_fold_dict_set_eq:
  "fst ` set (fold (\<lambda>kv d'. dict_set d' (fst kv) (snd kv)) kvs d) = fst ` set d \<union> fst ` set kvs"
proof (induction kvs arbitrary: d)
  case Nil
  then show ?case by simp
next
  case (Cons kv kvs)
  from Cons [of "dict_set d (fst kv) (snd kv)"] show ?case
    by (auto simp: keys_dict_set)
qed

lemma set_parameter_keys:
  "fst ` set (parameters (fst (snd (set_parameter L s cfg name v)))) = fst ` set (parameters s)"
proof -
  from set_parameter_parameters [of L s cfg name v]
  consider "parameters (fst (snd (set_parameter L s cfg name v))) = parameters s"
    | x where "name \<in> fst ` set (parameters s)"
        "parameters (fst (snd (set_parameter L s cfg name v)))
           = dict_set (parameters s) name (PFloat x)"
    by blast
  then show ?thesis
  proof cases
    case 1
    then show ?thesis by simp
  next
    case 2
    then show ?thesis by (simp add: keys_dict_set insert_absorb)
  qed
qed

lemma set_parameter_unknown:
  assumes "name \<notin> fst ` set (parameters s)"
  shows "set_parameter L s cfg name v = (Returns UnknownParameter, s, cfg)"
proof -
  from assms have "map_of (parameters s) name = None"
    by (simp add: map_of_eq_None_iff)
  then show ?thesis by (simp add: set_parameter_def)
qed

lemma load_conversation_merges:
  assumes "fs path = Some (JsonDoc (PDict kvs))"
    and "map_of kvs ''parameters'' = Some (PDict ps)"
  shows "fst (load_conversation s fs path) = True
    \<and> fst ` set (parameters (snd (load_conversation s fs path)))
        = fst ` set (parameters s) \<union> fst ` set ps"
proof -
  from assms(2) have m: "merged s kvs =
      (None, fold (\<lambda>kv d'. dict_set d' (fst kv) (snd kv)) ps (parameters s))"
    by (simp add: merged_def)
  with load_conversation_dict [where s = s and fs = fs and path = path and kvs = kvs] assms(1)
  show ?thesis
    by (simp add: keys_fold_dict_set_eq)
qed

text \<open>
  C9, as the code has it. A new session has exactly the four fixed keys, each bound to a
  number. \<^verbatim>\<open>set_parameter\<close> never adds or removes a key: it refuses every name that is
  not a key of the mapping as it stands. While the mapping has exactly the fixed keys
  with numbers, \<^verbatim>\<open>set_parameter\<close>, \<^verbatim>\<open>set_model\<close>, \<^verbatim>\<open>set_system_prompt\<close>,
  \<^verbatim>\<open>save_conversation\<close> and \<^verbatim>\<open>clear_conversation\<close> keep it so, and
  \<^verbatim>\<open>set_parameter\<close> then refuses every name outside the fixed set.
  \<^verbatim>\<open>load_conversation\<close> never removes a key, and promises no more: the keys of the
  parameters of a loaded record all enter the mapping.
\<close>

theorem parameters_invariant:
  "(case init L f url mdl of Inr s0 \<Rightarrow> params_ok (parameters s0) | Inl e \<Rightarrow> True)
   \<and> fst ` set (parameters (fst (snd (set_parameter L s cfg name v))))
       = fst ` set (parameters s)
   \<and> (name \<notin> fst ` set (parameters s)
      \<longrightarrow> set_parameter L s cfg name v = (Returns UnknownParameter, s, cfg))
   \<and> (params_ok (parameters s)
      \<longrightarrow> params_ok (parameters (fst (snd (set_parameter L s cfg name v))))
        \<and> (name \<notin> fixed_keys
           \<longrightarrow> set_parameter L s cfg name v = (Returns UnknownParameter, s, cfg))
        \<and> params_ok (parameters (fst (snd (set_model L s cfg mdl))))
        \<and> params_ok (parameters (fst (snd (set_system_prompt L s cfg prompt))))
        \<and> params_ok (parameters (fst (snd (save_conversation L clk s fs custom))))
        \<and> params_ok (parameters (snd (clear_conversation s)))
        \<and> fixed_keys \<subseteq> fst ` set (parameters (snd (load_conversation s fs path))))
   \<and> fst ` set (parameters s) \<subseteq> fst ` set (parameters (snd (load_conversation s fs path)))
   \<and> (fs path = Some (JsonDoc (PDict kvs)) \<and> map_of kvs ''parameters'' = Some (PDict ps)
      \<longrightarrow> fst (load_conversation s fs path) = True
        \<and> fst ` set (parameters (snd (load_conversation s fs path)))
            = fst ` set (parameters s) \<union> fst ` set ps)"
proof (intro conjI impI)
  show "case init L f url mdl of Inr s0 \<Rightarrow> params_ok (parameters s0) | Inl e \<Rightarrow> True"
    by (auto split: sum.splits dest: init_params_ok)
  show "fst ` set (parameters (fst (snd (set_parameter L s cfg name v))))
       = fst ` set (parameters s)"
    by (rule set_parameter_keys)
  show "set_parameter L s cfg name v = (Returns UnknownParameter, s, cfg)"
    if "name \<notin> fst ` set (parameters s)"
    using that by (rule set_parameter_unknown)
  show "fst ` set (parameters s) \<subseteq> fst ` set (parameters (snd (load_conversation s fs path)))"
    by (rule load_conversation_keys)
  show "fst (load_conversation s fs path) = True"
    if "fs path = Some (JsonDoc (PDict kvs)) \<and> map_of kvs ''parameters'' = Some (PDict ps)"
    using that load_conversation_merges [of fs path kvs ps s] by blast
  show "fst ` set (parameters (snd (load_conversation s fs path)))
            = fst ` set (parameters s) \<union> fst ` set ps"
    if "fs path = Some (JsonDoc (PDict kvs)) \<and> map_of kvs ''parameters'' = Some (PDict ps)"
    using that load_conversation_merges [of fs path kvs ps s] by blast
next
  assume ok: "params_ok (parameters s)"
  show "params_ok (parameters (fst (snd (set_parameter L s cfg name v))))"
  proof -
    from set_parameter_parameters [of L s cfg name v]
    consider "parameters (fst (snd (set_parameter L s cfg name v))) = parameters s"
      | x where "name \<in> fst ` set (parameters s)"
          "parameters (fst (snd (set_parameter L s cfg name v)))
             = dict_set (parameters s) name (PFloat x)"
      by blast
    then show ?thesis
    proof cases
      case 1
      with ok show ?thesis by simp
    next
      case 2
      from params_ok_dict_set [OF ok 2(1), of "PFloat x"] 2(2) show ?thesis
        by simp
    qed
  qed
  show "set_parameter L s cfg name v = (Returns UnknownParameter, s, cfg)" if "name \<notin> fixed_keys"
  proof -
    from that ok have "name \<notin> fst ` set (parameters s)"
      by (simp add: params_ok_def)
    then show ?thesis by (rule set_parameter_unknown)
  qed
  have "parameters (fst (snd (set_model L s cfg mdl))) = parameters s"
    using save_config_parameters [of L "s\<lparr>model := PStr mdl\<rparr>" cfg]
    by (auto simp: set_model_def split: prod.splits option.splits)
  with ok show "params_ok (parameters (fst (snd (set_model L s cfg mdl))))"
    by simp
  have "parameters (fst (snd (set_system_prompt L s cfg prompt))) = parameters s"
    using save_config_parameters [of L "s\<lparr>system_prompt := PStr prompt\<rparr>" cfg]
    by (auto simp: set_system_prompt_def split: prod.splits option.splits)
  with ok show "params_ok (parameters (fst (snd (set_system_prompt L s cfg prompt))))"
    by simp
  have "parameters (fst (snd (save_conversation L clk s fs custom))) = parameters s"
    by (auto simp: save_conversation_def Let_def split: prod.splits option.splits)
  with ok show "params_ok (parameters (fst (snd (save_conversation L clk s fs custom))))"
    by simp
  from ok show "params_ok (parameters (snd (clear_conversation s)))"
    by (simp add: clear_conversation_def)
  from ok load_conversation_keys [of s fs path]
  show "fixed_keys \<subseteq> fst ` set (parameters (snd (load_conversation s fs path)))"
    by (simp add: params_ok_def)
qed

theorem parameters_invariant_witness:
  "params_ok (parameters demo_session)
   \<and> params_ok (parameters (fst (snd
        (set_parameter demo_lib demo_session None ''top_k'' (PInt 50)))))
   \<and> params_ok (parameters (snd (clear_conversation demo_session)))
   \<and> set_parameter demo_lib demo_session None ''volume'' (PInt 1)
       = (Returns UnknownParameter, demo_session, None)
   \<and> fst (load_conversation demo_session odd_files ''chat_history/odd.json'') = True
   \<and> fst ` set (parameters (snd
        (load_conversation demo_session odd_files ''chat_history/odd.json'')))
       = fst ` set (parameters demo_session) \<union> {''mood''}"
proof -
  have ok: "params_ok (parameters demo_session)"
    by (simp add: demo_session_def new_session_def params_ok_default)
  have out: "''volume'' \<notin> fixed_keys"
    by (simp add: fixed_keys_def)
  have odd: "odd_files ''chat_history/odd.json''
      = Some (JsonDoc (PDict [(''parameters'', PDict [(''mood'', PStr ''calm'')])]))"
    "map_of [(''parameters'', PDict [(''mood'', PStr ''calm'')])] ''parameters''
      = Some (PDict [(''mood'', PStr ''calm'')])"
    by (simp_all add: odd_files_def)
  from parameters_invariant [where L = demo_lib and s = demo_session and cfg = None
      and name = "''top_k''" and v = "PInt 50"] ok
  have 1: "params_ok (parameters (fst (snd
        (set_parameter demo_lib demo_session None ''top_k'' (PInt 50)))))"
    and 2: "params_ok (parameters (snd (clear_conversation demo_session)))"
    by blast+
  from parameters_invariant [where L = demo_lib and s = demo_session and cfg = None
      and name = "''volume''" and v = "PInt 1"] ok out
  have 3: "set_parameter demo_lib demo_session None ''volume'' (PInt 1)
       = (Returns UnknownParameter, demo_session, None)"
    by blast
  from parameters_invariant [where s = demo_session and fs = odd_files
      and path = "''chat_history/odd.json''"
      and kvs = "[(''parameters'', PDict [(''mood'', PStr ''calm'')])]"
      and ps = "[(''mood'', PStr ''calm'')]"] odd
  have 4: "fst (load_conversation demo_session odd_files ''chat_history/odd.json'') = True"
    and 5: "fst ` set (parameters (snd
        (load_conversation demo_session odd_files ''chat_history/odd.json'')))
       = fst ` set (parameters demo_session) \<union> fst ` set [(''mood'', PStr ''calm'')]"
    by blast+
  from ok 1 2 3 4 5 show ?thesis by simp
qed

text \<open>
  C9 as stated fails: loading a record whose parameters hold another key succeeds and
  brings that key, with a value that is not a number, into the mapping; after that
  \<^verbatim>\<open>set_parameter\<close> accepts the key.
\<close>

theorem parameters_invariant_counterexample:
  "fst (load_conversation demo_session odd_files ''chat_history/odd.json'') = True
   \<and> map_of (parameters (snd
        (load_conversation demo_session odd_files ''chat_history/odd.json''))) ''mood''
       = Some (PStr ''calm'')
   \<and> ''mood'' \<notin> fixed_keys
   \<and> fst (set_parameter demo_lib
        (snd (load_conversation demo_session odd_files ''chat_history/odd.json''))
        None ''mood'' (PInt 1)) = Returns ParamSet"
  by (simp add: load_conversation_def odd_files_def py_get_def demo_session_def
      new_session_def default_parameters_def fixed_keys_def
      demo_lib_def set_parameter_def save_config_def ini_set_def ini_ensure_def
      has_section_def empty_ini_def)

subsection \<open>Loading\<close>

lemma update_seq_entries:
  "update_seq d (map entry good @ rest)
     = update_seq (fold (\<lambda>kv d'. dict_set d' (fst kv) (snd kv)) good d) rest"
  by (induction good arbitrary: d) (simp_all add: entry_def)

lemma merged_scalar:
  assumes "map_of kvs ''parameters'' = Some x" and "scalar x"
  shows "merged s kvs = (Some TypeError, parameters s)"
  using assms by (cases x) (simp_all add: merged_def)

lemma merged_string:
  assumes "map_of kvs ''parameters'' = Some (PStr (c # cs))"
  shows "merged s kvs = (Some ValueError, parameters s)"
  using assms by (simp add: merged_def)

lemma merged_list:
  assumes "map_of kvs ''parameters'' = Some (PList (map entry good @ bad # rest))"
    and "pair_of bad = Inl err"
  shows "merged s kvs
     = (Some err, fold (\<lambda>kv d'. dict_set d' (fst kv) (snd kv)) good (parameters s))"
  using assms by (simp add: merged_def update_seq_entries)

lemma load_conversation_fails:
  assumes "fs path = Some (JsonDoc (PDict kvs))" and "merged s kvs = (Some e, ps)"
  shows "load_conversation s fs path =
     (False, s\<lparr>model := field kvs ''model'' (model s),
                system_prompt := field kvs ''system_prompt'' (PStr []),
                parameters := ps\<rparr>)"
  using load_conversation_dict [where s = s and fs = fs and path = path and kvs = kvs] assms
  by simp

lemma load_conversation_false:
  assumes "load_conversation s fs path = (False, s')"
  shows "s' = s
    \<or> (\<exists>kvs. fs path = Some (JsonDoc (PDict kvs)) \<and> fst (merged s kvs) \<noteq> None
          \<and> s' = s\<lparr>model := field kvs ''model'' (model s),
                      system_prompt := field kvs ''system_prompt'' (PStr []),
                      parameters := snd (merged s kvs)\<rparr>)"
proof (cases "\<exists>kvs. fs path = Some (JsonDoc (PDict kvs))")
  case True
  then obtain kvs where f: "fs path = Some (JsonDoc (PDict kvs))" by blast
  with load_conversation_dict [where s = s and fs = fs and path = path and kvs = kvs] assms
  have "fst (merged s kvs) \<noteq> None
      \<and> s' = s\<lparr>model := field kvs ''model'' (model s),
                 system_prompt := field kvs ''system_prompt'' (PStr []),
                 parameters := snd (merged s kvs)\<rparr>"
    by (simp split: if_splits)
  with f show ?thesis by blast
next
  case False
  have n: "fs path = None \<or> (\<exists>body. fs path = Some (TextDoc body))
           \<or> (\<exists>data. fs path = Some (JsonDoc data) \<and> (\<forall>kvs. data \<noteq> PDict kvs))"
  proof (cases "fs path")
    case None
    then show ?thesis by simp
  next
    case (Some doc)
    with False show ?thesis
      by (cases doc) auto
  qed
  with load_conversation_not_dict [where s = s and fs = fs and path = path] assms
  show ?thesis by simp
qed

text \<open>
  C7, as the code has it. On a missing file, a file that is not JSON and a JSON value
  that is not an object, \<^verbatim>\<open>load_conversation\<close> fails and the whole session is as
  before. On a JSON object it fails when the merge of the parameters raises, and then the
  model and the system prompt have already been replaced by those of the record: so when
  the parameters are a number, a boolean or \<^verbatim>\<open>null\<close>, when they are a non-empty
  string, and when they are a list that reaches an element that is not a pair, in which
  case the pairs before that element stay merged. Whenever the call fails, the
  conversation log, the chat name and the endpoint are as before, no key has left the
  parameters, and the session is either untouched or changed in just that way.
\<close>

theorem load_failure_frame:
  "((fs path = None \<or> (\<exists>body. fs path = Some (TextDoc body))
       \<or> (\<exists>data. fs path = Some (JsonDoc data) \<and> (\<forall>kvs. data \<noteq> PDict kvs)))
      \<longrightarrow> load_conversation s fs path = (False, s))
   \<and> (fs path = Some (JsonDoc (PDict kvs)) \<and> map_of kvs ''parameters'' = Some x \<and> scalar x
      \<longrightarrow> load_conversation s fs path =
            (False, s\<lparr>model := field kvs ''model'' (model s),
                       system_prompt := field kvs ''system_prompt'' (PStr [])\<rparr>))
   \<and> (fs path = Some (JsonDoc (PDict kvs)) \<and> map_of kvs ''parameters'' = Some (PStr (c # cs))
      \<longrightarrow> load_conversation s fs path =
            (False, s\<lparr>model := field kvs ''model'' (model s),
                       system_prompt := field kvs ''system_prompt'' (PStr [])\<rparr>))
   \<and> (fs path = Some (JsonDoc (PDict kvs))
        \<and> map_of kvs ''parameters'' = Some (PList (map entry good @ bad # rest))
        \<and> pair_of bad = Inl err
      \<longrightarrow> load_conversation s fs path =
            (False, s\<lparr>model := field kvs ''model'' (model s),
                       system_prompt := field kvs ''system_prompt'' (PStr []),
                       parameters := fold (\<lambda>kv d'. dict_set d' (fst kv) (snd kv)) good
                                       (parameters s)\<rparr>))
   \<and> (fs path = Some (JsonDoc (PDict kvs)) \<and> fst (merged s kvs) = Some e \<and> e \<noteq> NonStringKey
      \<longrightarrow> load_conversation s fs path =
            (False, s\<lparr>model := field kvs ''model'' (model s),
                       system_prompt := field kvs ''system_prompt'' (PStr []),
                       parameters := snd (merged s kvs)\<rparr>))
   \<and> (load_conversation s fs path = (False, s') \<and> string_keyed s fs path
      \<longrightarrow> conversation s' = conversation s \<and> chat_name s' = chat_name s
          \<and> base_url s' = base_url s
          \<and> fst ` set (parameters s) \<subseteq> fst ` set (parameters s')
          \<and> (s' = s
             \<or> (\<exists>kvs e. fs path = Some (JsonDoc (PDict kvs)) \<and> fst (merged s kvs) = Some e
                  \<and> e \<noteq> NonStringKey
                  \<and> s' = s\<lparr>model := field kvs ''model'' (model s),
                              system_prompt := field kvs ''system_prompt'' (PStr []),
                              parameters := snd (merged s kvs)\<rparr>)))"
proof (intro conjI impI)
  assume "fs path = None \<or> (\<exists>body. fs path = Some (TextDoc body))
       \<or> (\<exists>data. fs path = Some (JsonDoc data) \<and> (\<forall>kvs. data \<noteq> PDict kvs))"
  then show "load_conversation s fs path = (False, s)"
    by (rule load_conversation_not_dict)
next
  assume a: "fs path = Some (JsonDoc (PDict kvs)) \<and> map_of kvs ''parameters'' = Some x \<and> scalar x"
  then have "merged s kvs = (Some TypeError, parameters s)"
    using merged_scalar [of kvs x s] by blast
  with a load_conversation_fails [of fs path kvs s TypeError "parameters s"]
  show "load_conversation s fs path =
        (False, s\<lparr>model := field kvs ''model'' (model s),
                   system_prompt := field kvs ''system_prompt'' (PStr [])\<rparr>)"
    by simp
next
  assume a: "fs path = Some (JsonDoc (PDict kvs)) \<and> map_of kvs ''parameters'' = Some (PStr (c # cs))"
  then have "merged s kvs = (Some ValueError, parameters s)"
    using merged_string [of kvs c cs s] by blast
  with a load_conversation_fails [of fs path kvs s ValueError "parameters s"]
  show "load_conversation s fs path =
        (False, s\<lparr>model := field kvs ''model'' (model s),
                   system_prompt := field kvs ''system_prompt'' (PStr [])\<rparr>)"
    by simp
next
  assume a: "fs path = Some (JsonDoc (PDict kvs))
        \<and> map_of kvs ''parameters'' = Some (PList (map entry good @ bad # rest))
        \<and> pair_of bad = Inl err"
  then have "merged s kvs
     = (Some err, fold (\<lambda>kv d'. dict_set d' (fst kv) (snd kv)) good (parameters s))"
    using merged_list [of kvs good bad rest err s] by blast
  with a load_conversation_fails [of fs path kvs s err
      "fold (\<lambda>kv d'. dict_set d' (fst kv) (snd kv)) good (parameters s)"]
  show "load_conversation s fs path =
        (False, s\<lparr>model := field kvs ''model'' (model s),
                   system_prompt := field kvs ''system_prompt'' (PStr []),
                   parameters := fold (\<lambda>kv d'. dict_set d' (fst kv) (snd kv)) good
                                   (parameters s)\<rparr>)"
    by simp
next
  assume a: "fs path = Some (JsonDoc (PDict kvs)) \<and> fst (merged s kvs) = Some e \<and> e \<noteq> NonStringKey"
  then have "merged s kvs = (Some e, snd (merged s kvs))"
    by (simp add: prod_eq_iff)
  with a load_conversation_fails [of fs path kvs s e "snd (merged s kvs)"]
  show "load_conversation s fs path =
        (False, s\<lparr>model := field kvs ''model'' (model s),
                   system_prompt := field kvs ''system_prompt'' (PStr []),
                   parameters := snd (merged s kvs)\<rparr>)"
    by simp
next
  assume a: "load_conversation s fs path = (False, s') \<and> string_keyed s fs path"
  then have l: "load_conversation s fs path = (False, s')" and sk: "string_keyed s fs path"
    by blast+
  from load_conversation_false [OF l]
  consider "s' = s"
    | kvs where "fs path = Some (JsonDoc (PDict kvs))" "fst (merged s kvs) \<noteq> None"
        "s' = s\<lparr>model := field kvs ''model'' (model s),
                  system_prompt := field kvs ''system_prompt'' (PStr []),
                  parameters := snd (merged s kvs)\<rparr>"
    by blast
  then have frame: "conversation s' = conversation s \<and> chat_name s' = chat_name s
      \<and> base_url s' = base_url s"
    and cases: "s' = s
       \<or> (\<exists>kvs e. fs path = Some (JsonDoc (PDict kvs)) \<and> fst (merged s kvs) = Some e
            \<and> e \<noteq> NonStringKey
            \<and> s' = s\<lparr>model := field kvs ''model'' (model s),
                        system_prompt := field kvs ''system_prompt'' (PStr []),
                        parameters := snd (merged s kvs)\<rparr>)"
  proof (atomize (full), cases)
    case 1
    then show "(conversation s' = conversation s \<and> chat_name s' = chat_name s
      \<and> base_url s' = base_url s) \<and> (s' = s
       \<or> (\<exists>kvs e. fs path = Some (JsonDoc (PDict kvs)) \<and> fst (merged s kvs) = Some e
            \<and> e \<noteq> NonStringKey
            \<and> s' = s\<lparr>model := field kvs ''model'' (model s),
                        system_prompt := field kvs ''system_prompt'' (PStr []),
                        parameters := snd (merged s kvs)\<rparr>))"
      by simp
  next
    case 2
    from 2(2) obtain e where e: "fst (merged s kvs) = Some e" by blast
    from sk 2(1) e have "e \<noteq> NonStringKey"
      by (auto simp: string_keyed_def)
    with 2 e show "(conversation s' = conversation s \<and> chat_name s' = chat_name s
      \<and> base_url s' = base_url s) \<and> (s' = s
       \<or> (\<exists>kvs e. fs path = Some (JsonDoc (PDict kvs)) \<and> fst (merged s kvs) = Some e
            \<and> e \<noteq> NonStringKey
            \<and> s' = s\<lparr>model := field kvs ''model'' (model s),
                        system_prompt := field kvs ''system_prompt'' (PStr []),
                        parameters := snd (merged s kvs)\<rparr>))"
      by auto
  qed
  from frame show "conversation s' = conversation s" "chat_name s' = chat_name s"
    "base_url s' = base_url s"
    by blast+
  from load_conversation_keys [of s fs path] l
  show "fst ` set (parameters s) \<subseteq> fst ` set (parameters s')"
    by simp
  from cases show "s' = s
       \<or> (\<exists>kvs e. fs path = Some (JsonDoc (PDict kvs)) \<and> fst (merged s kvs) = Some e
            \<and> e \<noteq> NonStringKey
            \<and> s' = s\<lparr>model := field kvs ''model'' (model s),
                        system_prompt := field kvs ''system_prompt'' (PStr []),
                        parameters := snd (merged s kvs)\<rparr>)" .
qed

theorem load_failure_frame_witness:
  "load_conversation talk_session bad_files ''chat_history/none.json'' = (False, talk_session)
   \<and> load_conversation talk_session bad_files ''chat_history/bad.json''
       = (False, talk_session\<lparr>model := PStr ''other'', system_prompt := PStr []\<rparr>)
   \<and> load_conversation talk_session half_files ''chat_history/half.json''
       = (False, talk_session\<lparr>system_prompt := PStr [],
            parameters := dict_set (parameters talk_session) ''temperature'' (PInt 1)\<rparr>)
   \<and> conversation (snd (load_conversation talk_session half_files ''chat_history/half.json''))
       = PList [exchange ''hi'' (PStr ''hello'')]"
proof -
  have n: "bad_files ''chat_history/none.json'' = None"
    by (simp add: bad_files_def)
  from load_failure_frame [where fs = bad_files and path = "''chat_history/none.json''"
      and s = talk_session] n
  have 1: "load_conversation talk_session bad_files ''chat_history/none.json''
      = (False, talk_session)"
    by blast
  have b: "bad_files ''chat_history/bad.json''
      = Some (JsonDoc (PDict [(''model'', PStr ''other''), (''parameters'', PInt 5)]))"
    "map_of [(''model'', PStr ''other''), (''parameters'', PInt 5)] ''parameters''
      = Some (PInt 5)"
    "scalar (PInt 5)"
    by (simp_all add: bad_files_def)
  from load_failure_frame [where fs = bad_files and path = "''chat_history/bad.json''"
      and s = talk_session
      and kvs = "[(''model'', PStr ''other''), (''parameters'', PInt 5)]" and x = "PInt 5"] b
  have "load_conversation talk_session bad_files ''chat_history/bad.json''
      = (False, talk_session\<lparr>model := field
            [(''model'', PStr ''other''), (''parameters'', PInt 5)] ''model'' (model talk_session),
          system_prompt := field
            [(''model'', PStr ''other''), (''parameters'', PInt 5)] ''system_prompt'' (PStr [])\<rparr>)"
    by blast
  then have 2: "load_conversation talk_session bad_files ''chat_history/bad.json''
       = (False, talk_session\<lparr>model := PStr ''other'', system_prompt := PStr []\<rparr>)"
    by (simp add: field_def)
  have h: "half_files ''chat_history/half.json''
      = Some (JsonDoc (PDict [(''parameters'',
          PList [PList [PStr ''temperature'', PInt 1], PInt 5])]))"
    "map_of [(''parameters'', PList [PList [PStr ''temperature'', PInt 1], PInt 5])]
        ''parameters''
      = Some (PList (map entry [(''temperature'', PInt 1)] @ PInt 5 # []))"
    "pair_of (PInt 5) = Inl TypeError"
    by (simp_all add: half_files_def entry_def)
  from load_failure_frame [where fs = half_files and path = "''chat_history/half.json''"
      and s = talk_session
      and kvs = "[(''parameters'', PList [PList [PStr ''temperature'', PInt 1], PInt 5])]"
      and good = "[(''temperature'', PInt 1)]" and bad = "PInt 5" and rest = "[]"
      and err = TypeError] h
  have "load_conversation talk_session half_files ''chat_history/half.json''
      = (False, talk_session\<lparr>model := field
            [(''parameters'', PList [PList [PStr ''temperature'', PInt 1], PInt 5])]
            ''model'' (model talk_session),
          system_prompt := field
            [(''parameters'', PList [PList [PStr ''temperature'', PInt 1], PInt 5])]
            ''system_prompt'' (PStr []),
          parameters := fold (\<lambda>kv d'. dict_set d' (fst kv) (snd kv))
            [(''temperature'', PInt 1)] (parameters talk_session)\<rparr>)"
    by blast
  then have 3: "load_conversation talk_session half_files ''chat_history/half.json''
       = (False, talk_session\<lparr>system_prompt := PStr [],
            parameters := dict_set (parameters talk_session) ''temperature'' (PInt 1)\<rparr>)"
    by (simp add: field_def)
  have sk: "string_keyed talk_session half_files ''chat_history/half.json''"
    by (simp add: string_keyed_def half_files_def merged_def)
  from load_failure_frame [where fs = half_files and path = "''chat_history/half.json''"
      and s = talk_session
      and s' = "talk_session\<lparr>system_prompt := PStr [],
            parameters := dict_set (parameters talk_session) ''temperature'' (PInt 1)\<rparr>"] 3 sk
  have "conversation (talk_session\<lparr>system_prompt := PStr [],
            parameters := dict_set (parameters talk_session) ''temperature'' (PInt 1)\<rparr>)
      = conversation talk_session"
    by blast
  with 3 have 4: "conversation (snd (load_conversation talk_session half_files
        ''chat_history/half.json'')) = PList [exchange ''hi'' (PStr ''hello'')]"
    by (simp add: talk_session_def)
  from 1 2 3 4 show ?thesis by simp
qed

text \<open>
  C7 as stated fails: a record whose parameters are a number makes the load fail, and
  the model of the session has been replaced all the same.
\<close>

theorem load_failure_counterexample:
  "fst (load_conversation talk_session bad_files ''chat_history/bad.json'') = False
   \<and> model talk_session = PStr ''llama3.2''
   \<and> model (snd (load_conversation talk_session bad_files ''chat_history/bad.json''))
       = PStr ''other''"
  by (simp add: load_conversation_def bad_files_def py_get_def talk_session_def
      demo_session_def new_session_def)

subsection \<open>Saving and loading again\<close>

lemma map_of_fold_other:
  "map_of kvs k = None \<Longrightarrow>
   map_of (fold (\<lambda>kv d'. dict_set d' (fst kv) (snd kv)) kvs d) k = map_of d k"
proof (induction kvs arbitrary: d)
  case Nil
  then show ?case by simp
next
  case (Cons kv kvs)
  from Cons.prems have "fst kv \<noteq> k" "map_of kvs k = None"
    by (cases kv; simp split: if_splits)+
  with Cons.IH [of "dict_set d (fst kv) (snd kv)"] show ?case
    by (simp add: map_of_dict_set)
qed

lemma map_of_fold_distinct:
  "distinct (map fst kvs) \<Longrightarrow> map_of kvs k = Some v \<Longrightarrow>
   map_of (fold (\<lambda>kv d'. dict_set d' (fst kv) (snd kv)) kvs d) k = Some v"
proof (induction kvs arbitrary: d)
  case Nil
  then show ?case by simp
next
  case (Cons kv kvs)
  show ?case
  proof (cases "fst kv = k")
    case True
    with Cons.prems have v: "snd kv = v" and "k \<notin> fst ` set kvs"
      by (cases kv; auto)+
    then have "map_of kvs k = None"
      by (simp add: map_of_eq_None_iff)
    from map_of_fold_other [OF this, of "dict_set d (fst kv) (snd kv)"] True v show ?thesis
      by (simp add: map_of_dict_set)
  next
    case False
    with Cons.prems have "distinct (map fst kvs)" "map_of kvs k = Some v"
      by (cases kv; auto)+
    from Cons.IH [OF this] show ?thesis by simp
  qed
qed

lemma write_exchanges_ok:
  "list_all is_exchange exs \<Longrightarrow> fst (write_exchanges L i exs out) = None"
proof (induction exs arbitrary: i out)
  case Nil
  then show ?case by simp
next
  case (Cons ex exs)
  from Cons.prems obtain kvs u a where
    "ex = PDict kvs" "map_of kvs ''user'' = Some u" "map_of kvs ''assistant'' = Some a"
    by (cases ex) auto
  with Cons show ?case by (simp add: Let_def)
qed

lemma save_conversation_ok:
  assumes "conversation s = PList exs" and "exs \<noteq> []" and "list_all is_exchange exs"
    and "base = (case custom of
                   Some n \<Rightarrow> if n \<noteq> [] then n else ''chat_'' @ stamp clk
                 | None \<Rightarrow> ''chat_'' @ stamp clk)"
  shows "\<exists>out. save_conversation L clk s fs custom =
     (Returns (SavedTo (save_dir s @ ''/'' @ base @ ''.json'')),
      s\<lparr>chat_name := PStr base\<rparr>,
      (fs(save_dir s @ ''/'' @ base @ ''.json'' \<mapsto> JsonDoc (PDict
          [(''model'', model s),
           (''timestamp'', PStr (iso clk)),
           (''system_prompt'', system_prompt s),
           (''parameters'', PDict (parameters s)),
           (''chat_name'', PStr base),
           (''conversation'', conversation s)])))
        (save_dir s @ ''/'' @ base @ ''.txt'' \<mapsto> TextDoc out))"
proof -
  obtain e out where t: "transcript L clk s = (e, out)"
    by (cases "transcript L clk s") auto
  have "fst (transcript L clk s) = None"
    using assms(1,3) by (simp add: transcript_def Let_def write_exchanges_ok)
  with t have "e = None" by simp
  with t assms have "save_conversation L clk s fs custom =
     (Returns (SavedTo (save_dir s @ ''/'' @ base @ ''.json'')),
      s\<lparr>chat_name := PStr base\<rparr>,
      (fs(save_dir s @ ''/'' @ base @ ''.json'' \<mapsto> JsonDoc (PDict
          [(''model'', model s),
           (''timestamp'', PStr (iso clk)),
           (''system_prompt'', system_prompt s),
           (''parameters'', PDict (parameters s)),
           (''chat_name'', PStr base),
           (''conversation'', conversation s)])))
        (save_dir s @ ''/'' @ base @ ''.txt'' \<mapsto> TextDoc out))"
    by (simp add: save_conversation_def Let_def)
  then show ?thesis by blast
qed

text \<open>
  C4. A session with a non-empty log of exchanges is saved: the call returns the path of
  the record. Loading that path, into any session, gives back the saved log, the chat
  name under which it was saved, the model and the system prompt; the parameters of the
  loading session that the record does not have keep their values, and those it has
  take the saved ones.
\<close>

theorem save_then_load:
  assumes "conversation s = PList exs" and "exs \<noteq> []" and "list_all is_exchange exs"
  shows "\<exists>path base.
      fst (save_conversation L clk s fs custom) = Returns (SavedTo path)
    \<and> base = (case custom of
                Some n \<Rightarrow> if n \<noteq> [] then n else ''chat_'' @ stamp clk
              | None \<Rightarrow> ''chat_'' @ stamp clk)
    \<and> chat_name (fst (snd (save_conversation L clk s fs custom))) = PStr base
    \<and> fst (load_conversation t (snd (snd (save_conversation L clk s fs custom))) path) = True
    \<and> conversation
        (snd (load_conversation t (snd (snd (save_conversation L clk s fs custom))) path))
        = conversation s
    \<and> chat_name
        (snd (load_conversation t (snd (snd (save_conversation L clk s fs custom))) path))
        = PStr base
    \<and> (\<forall>k. map_of (parameters s) k = None
        \<longrightarrow> map_of (parameters
              (snd (load_conversation t (snd (snd (save_conversation L clk s fs custom))) path))) k
            = map_of (parameters t) k)
    \<and> (distinct (map fst (parameters s))
        \<longrightarrow> (\<forall>k v. map_of (parameters s) k = Some v
             \<longrightarrow> map_of (parameters
                   (snd (load_conversation t (snd (snd (save_conversation L clk s fs custom))) path))) k
                 = Some v))"
proof -
  define base where "base = (case custom of
      Some n \<Rightarrow> if n \<noteq> [] then n else ''chat_'' @ stamp clk
    | None \<Rightarrow> ''chat_'' @ stamp clk)"
  define path where "path = save_dir s @ ''/'' @ base @ ''.json''"
  define kvs where "kvs =
     [(''model'', model s),
      (''timestamp'', PStr (iso clk)),
      (''system_prompt'', system_prompt s),
      (''parameters'', PDict (parameters s)),
      (''chat_name'', PStr base),
      (''conversation'', conversation s)]"
  from save_conversation_ok [OF assms base_def, of L fs] obtain out where
    sv: "save_conversation L clk s fs custom =
       (Returns (SavedTo path), s\<lparr>chat_name := PStr base\<rparr>,
        (fs(path \<mapsto> JsonDoc (PDict kvs)))(save_dir s @ ''/'' @ base @ ''.txt'' \<mapsto> TextDoc out))"
    unfolding path_def kvs_def by blast
  define fs' where "fs' = snd (snd (save_conversation L clk s fs custom))"
  have "fs' path = Some (JsonDoc (PDict kvs))"
    by (simp add: fs'_def sv path_def)
  from load_conversation_dict [where s = t and fs = fs' and path = path and kvs = kvs, OF this]
  have ld: "load_conversation t fs' path =
     (if fst (merged t kvs) = None then
        (True, t\<lparr>model := field kvs ''model'' (model t),
                  system_prompt := field kvs ''system_prompt'' (PStr []),
                  parameters := snd (merged t kvs),
                  conversation := field kvs ''conversation'' (PList []),
                  chat_name := field kvs ''chat_name'' (PStr (stem path))\<rparr>)
      else
        (False, t\<lparr>model := field kvs ''model'' (model t),
                   system_prompt := field kvs ''system_prompt'' (PStr []),
                   parameters := snd (merged t kvs)\<rparr>))" .
  have m: "merged t kvs =
      (None, fold (\<lambda>kv d'. dict_set d' (fst kv) (snd kv)) (parameters s) (parameters t))"
    by (simp add: merged_def kvs_def)
  have c: "field kvs ''conversation'' (PList []) = conversation s"
    by (simp add: field_def kvs_def)
  have n: "field kvs ''chat_name'' (PStr (stem path)) = PStr base"
    by (simp add: field_def kvs_def)
  from ld m c n have ld': "load_conversation t fs' path =
     (True, t\<lparr>model := field kvs ''model'' (model t),
               system_prompt := field kvs ''system_prompt'' (PStr []),
               parameters := fold (\<lambda>kv d'. dict_set d' (fst kv) (snd kv)) (parameters s) (parameters t),
               conversation := conversation s,
               chat_name := PStr base\<rparr>)"
    by simp
  show ?thesis
    apply (rule exI [of _ path])
    apply (rule exI [of _ base])
    unfolding fs'_def [symmetric]
    using sv ld' base_def
    by (simp add: map_of_fold_other map_of_fold_distinct)
qed

theorem save_then_load_witness:
  "fst (save_conversation demo_lib demo_clock talk_session Map.empty (Some ''t1''))
     = Returns (SavedTo ''chat_history/t1.json'')
   \<and> fst (load_conversation demo_session
        (snd (snd (save_conversation demo_lib demo_clock talk_session Map.empty (Some ''t1''))))
        ''chat_history/t1.json'') = True
   \<and> conversation (snd (load_conversation demo_session
        (snd (snd (save_conversation demo_lib demo_clock talk_session Map.empty (Some ''t1''))))
        ''chat_history/t1.json'')) = PList [exchange ''hi'' (PStr ''hello'')]
   \<and> chat_name (snd (load_conversation demo_session
        (snd (snd (save_conversation demo_lib demo_clock talk_session Map.empty (Some ''t1''))))
        ''chat_history/t1.json'')) = PStr ''t1''"
proof -
  have c: "conversation talk_session = PList [exchange ''hi'' (PStr ''hello'')]"
    by (simp add: talk_session_def)
  have e: "list_all is_exchange [exchange ''hi'' (PStr ''hello'')]"
    by (simp add: exchange_def)
  have sd: "save_dir talk_session = ''chat_history''"
    by (simp add: talk_session_def demo_session_def new_session_def)
  have p: "fst (save_conversation demo_lib demo_clock talk_session Map.empty (Some ''t1''))
     = Returns (SavedTo ''chat_history/t1.json'')"
    using save_conversation_ok [OF c _ e refl, of demo_lib demo_clock Map.empty "Some ''t1''"] sd
    by auto
  from save_then_load [OF c _ e, of demo_lib demo_clock Map.empty "Some ''t1''" demo_session] p c
  show ?thesis by auto
qed

subsection \<open>Renaming\<close>

lemma not_prefix_json_append:
  "\<not> prefix ''.json'' (c # cs) \<Longrightarrow> \<not> prefix ''.json'' ((c # cs) @ ''.json'')"
  by (auto simp: prefix_append Cons_eq_append_conv append_eq_Cons_conv)

lemma str_replace_suffix:
  "\<not> occurs_in ''.json'' base \<Longrightarrow>
   str_replace ''.json'' ''.txt'' (base @ ''.json'') = base @ ''.txt''"
proof (induction base)
  case Nil
  show ?case by simp
next
  case (Cons c cs)
  then have np: "\<not> prefix ''.json'' (c # cs)" and no: "\<not> occurs_in ''.json'' cs"
    by simp_all
  from not_prefix_json_append [OF np] have np': "\<not> prefix ''.json'' (c # (cs @ ''.json''))"
    by simp
  have "str_replace ''.json'' ''.txt'' (c # (cs @ ''.json''))
          = c # str_replace ''.json'' ''.txt'' (cs @ ''.json'')"
    by (simp only: str_replace.simps(2) np' if_False list.distinct)
  with Cons.IH [OF no] show ?case
    by (simp only: append_Cons)
qed

lemma path_join_ext:
  "e = ''.json'' \<or> e = ''.txt'' \<Longrightarrow>
   path_join a (n @ e) =
     (if prefix ''/'' n then [] else if a = [] \<or> suffix ''/'' a then a else a @ ''/'') @ n @ e"
  by (cases n) (auto simp: path_join_def)

lemma path_join_json_txt:
  "path_join a (n @ ''.json'') \<noteq> path_join a (n @ ''.txt'')"
  by (simp add: path_join_ext)

lemma path_join_json_last: "last (path_join a (n @ ''.json'')) = CHR ''n''"
  by (simp add: path_join_ext)

lemma path_join_txt_last: "last (path_join a (n @ ''.txt'')) = CHR ''t''"
  by (simp add: path_join_ext)

lemma path_join_json_not_txt: "path_join a (n @ ''.json'') \<noteq> base @ ''.txt''"
proof
  assume "path_join a (n @ ''.json'') = base @ ''.txt''"
  then have "last (path_join a (n @ ''.json'')) = last (base @ ''.txt'')" by simp
  then show False by (simp add: path_join_json_last)
qed

lemma path_join_txt_not_json: "path_join a (n @ ''.txt'') \<noteq> base @ ''.json''"
proof
  assume "path_join a (n @ ''.txt'') = base @ ''.json''"
  then have "last (path_join a (n @ ''.txt'')) = last (base @ ''.json'')" by simp
  then show False by (simp add: path_join_txt_last)
qed

lemma rename_chat_file_ok:
  assumes nj: "fs (path_join (dirname old_path) (new_name @ ''.json'')) = None"
    and old: "fs old_path = Some (JsonDoc (PDict kvs))"
    and base: "old_path = base @ ''.json''"
    and occ: "\<not> occurs_in ''.json'' base"
  shows "rename_chat_file fs old_path new_name =
    (Renamed (path_join (dirname old_path) (new_name @ ''.json'')),
     ((case fs (base @ ''.txt'') of
         None \<Rightarrow> fs(old_path := None)
       | Some c \<Rightarrow> (fs(old_path := None, base @ ''.txt'' := None))
                     (path_join (dirname old_path) (new_name @ ''.txt'') \<mapsto> c)))
       (path_join (dirname old_path) (new_name @ ''.json'')
          \<mapsto> JsonDoc (PDict (dict_set kvs ''chat_name'' (PStr new_name)))))"
proof -
  define nj where "nj = path_join (dirname old_path) (new_name @ ''.json'')"
  define nt where "nt = path_join (dirname old_path) (new_name @ ''.txt'')"
  define ot where "ot = base @ ''.txt''"
  have rep: "str_replace ''.json'' ''.txt'' old_path = ot"
    using str_replace_suffix [OF occ] by (simp add: base ot_def)
  have d1: "nj \<noteq> nt" by (simp add: nj_def nt_def path_join_json_txt)
  have d2: "nj \<noteq> ot" by (simp add: nj_def ot_def path_join_json_not_txt)
  have d3: "nt \<noteq> old_path" by (simp add: nt_def base path_join_txt_not_json)
  have d4: "ot \<noteq> old_path" by (simp add: ot_def base)
  have d5: "nj \<noteq> old_path" using nj old by (auto simp: nj_def)
  have r1: "os_rename fs old_path nj = Some ((fs(old_path := None))(nj \<mapsto> JsonDoc (PDict kvs)))"
    by (simp add: os_rename_def old)
  show ?thesis
  proof (cases "fs ot")
    case None
    then have "((fs(old_path := None))(nj \<mapsto> JsonDoc (PDict kvs))) ot = None"
      using d2 by simp
    with None nj r1 rep show ?thesis
      unfolding rename_chat_file_def Let_def nj_def [symmetric] nt_def [symmetric]
        ot_def [symmetric]
      by simp
  next
    case (Some c)
    then have f1: "((fs(old_path := None))(nj \<mapsto> JsonDoc (PDict kvs))) ot = Some c"
      using d2 d4 by simp
    then have r2: "os_rename ((fs(old_path := None))(nj \<mapsto> JsonDoc (PDict kvs))) ot nt =
       Some ((((fs(old_path := None))(nj \<mapsto> JsonDoc (PDict kvs)))(ot := None))(nt \<mapsto> c))"
      by (simp add: os_rename_def)
    have f2: "((((fs(old_path := None))(nj \<mapsto> JsonDoc (PDict kvs)))(ot := None))(nt \<mapsto> c)) nj
        = Some (JsonDoc (PDict kvs))"
      using d1 d2 by simp
    have eq: "((((fs(old_path := None))(nj \<mapsto> JsonDoc (PDict kvs)))(ot := None))(nt \<mapsto> c))
          (nj \<mapsto> JsonDoc (PDict (dict_set kvs ''chat_name'' (PStr new_name))))
        = ((fs(old_path := None, ot := None))(nt \<mapsto> c))
          (nj \<mapsto> JsonDoc (PDict (dict_set kvs ''chat_name'' (PStr new_name))))"
      using d1 d2 by (auto simp: fun_eq_iff)
    from Some nj r1 rep f1 r2 f2 eq show ?thesis
      unfolding rename_chat_file_def Let_def nj_def [symmetric] nt_def [symmetric]
        ot_def [symmetric]
      by simp
  qed
qed

text \<open>
  Renaming, for a data file whose path ends in \<^verbatim>\<open>.json\<close> and holds that piece
  nowhere else. When a data file of the new name exists, the call answers that the name
  exists and no file is touched. When it does not and the source is missing, the call
  fails and no file is touched. When the source holds a JSON object, the data file moves
  to the new name with its chat name rewritten, the transcript moves along when there is
  one, its absence is no error, and no other file changes.
\<close>

lemma rename_chat_file_cases:
  "(fs (path_join (dirname old_path) (new_name @ ''.json'')) \<noteq> None
     \<longrightarrow> rename_chat_file fs old_path new_name = (NameExists, fs))
   \<and> (fs (path_join (dirname old_path) (new_name @ ''.json'')) = None \<and> fs old_path = None
     \<longrightarrow> rename_chat_file fs old_path new_name = (RenameFailed FileNotFoundError, fs))
   \<and> (fs (path_join (dirname old_path) (new_name @ ''.json'')) = None
       \<and> fs old_path = Some (JsonDoc (PDict kvs))
       \<and> old_path = base @ ''.json'' \<and> \<not> occurs_in ''.json'' base
     \<longrightarrow> fst (rename_chat_file fs old_path new_name)
           = Renamed (path_join (dirname old_path) (new_name @ ''.json''))
       \<and> snd (rename_chat_file fs old_path new_name)
             (path_join (dirname old_path) (new_name @ ''.json''))
           = Some (JsonDoc (PDict (dict_set kvs ''chat_name'' (PStr new_name))))
       \<and> snd (rename_chat_file fs old_path new_name) old_path = None
       \<and> (fs (base @ ''.txt'') = None
          \<longrightarrow> (\<forall>p. p \<noteq> old_path \<and> p \<noteq> path_join (dirname old_path) (new_name @ ''.json'')
                \<longrightarrow> snd (rename_chat_file fs old_path new_name) p = fs p))
       \<and> (\<forall>c. fs (base @ ''.txt'') = Some c
          \<longrightarrow> snd (rename_chat_file fs old_path new_name)
                  (path_join (dirname old_path) (new_name @ ''.txt'')) = Some c
              \<and> (path_join (dirname old_path) (new_name @ ''.txt'') \<noteq> base @ ''.txt''
                 \<longrightarrow> snd (rename_chat_file fs old_path new_name) (base @ ''.txt'') = None)
              \<and> (\<forall>p. p \<noteq> old_path \<and> p \<noteq> base @ ''.txt''
                     \<and> p \<noteq> path_join (dirname old_path) (new_name @ ''.json'')
                     \<and> p \<noteq> path_join (dirname old_path) (new_name @ ''.txt'')
                   \<longrightarrow> snd (rename_chat_file fs old_path new_name) p = fs p)))"
proof (intro conjI impI)
  assume "fs (path_join (dirname old_path) (new_name @ ''.json'')) \<noteq> None"
  then show "rename_chat_file fs old_path new_name = (NameExists, fs)"
    by (simp add: rename_chat_file_def Let_def)
next
  assume "fs (path_join (dirname old_path) (new_name @ ''.json'')) = None \<and> fs old_path = None"
  then show "rename_chat_file fs old_path new_name = (RenameFailed FileNotFoundError, fs)"
    by (simp add: rename_chat_file_def Let_def os_rename_def)
next
  assume a: "fs (path_join (dirname old_path) (new_name @ ''.json'')) = None
       \<and> fs old_path = Some (JsonDoc (PDict kvs))
       \<and> old_path = base @ ''.json'' \<and> \<not> occurs_in ''.json'' base"
  then have nj: "fs (path_join (dirname old_path) (new_name @ ''.json'')) = None"
    and old: "fs old_path = Some (JsonDoc (PDict kvs))"
    and base: "old_path = base @ ''.json''"
    and occ: "\<not> occurs_in ''.json'' base"
    by blast+
  note r = rename_chat_file_ok [OF nj old base occ]
  have d1: "path_join (dirname old_path) (new_name @ ''.json'')
              \<noteq> path_join (dirname old_path) (new_name @ ''.txt'')"
    by (rule path_join_json_txt)
  have d2: "path_join (dirname old_path) (new_name @ ''.json'') \<noteq> base @ ''.txt''"
    by (rule path_join_json_not_txt)
  have d3: "path_join (dirname old_path) (new_name @ ''.txt'') \<noteq> old_path"
    by (simp add: base path_join_txt_not_json)
  have d4: "base @ ''.txt'' \<noteq> old_path" by (simp add: base)
  have d5: "path_join (dirname old_path) (new_name @ ''.json'') \<noteq> old_path"
    using nj old by auto
  show "fst (rename_chat_file fs old_path new_name)
           = Renamed (path_join (dirname old_path) (new_name @ ''.json''))"
    by (simp add: r)
  show "snd (rename_chat_file fs old_path new_name)
             (path_join (dirname old_path) (new_name @ ''.json''))
           = Some (JsonDoc (PDict (dict_set kvs ''chat_name'' (PStr new_name))))"
    by (simp add: r)
  show "snd (rename_chat_file fs old_path new_name) old_path = None"
    using d3 d5 by (simp add: r split: option.splits)
  show "\<forall>p. p \<noteq> old_path \<and> p \<noteq> path_join (dirname old_path) (new_name @ ''.json'')
                \<longrightarrow> snd (rename_chat_file fs old_path new_name) p = fs p"
    if "fs (base @ ''.txt'') = None"
    using that by (simp add: r)
  show "\<forall>c. fs (base @ ''.txt'') = Some c
          \<longrightarrow> snd (rename_chat_file fs old_path new_name)
                  (path_join (dirname old_path) (new_name @ ''.txt'')) = Some c
              \<and> (path_join (dirname old_path) (new_name @ ''.txt'') \<noteq> base @ ''.txt''
                 \<longrightarrow> snd (rename_chat_file fs old_path new_name) (base @ ''.txt'') = None)
              \<and> (\<forall>p. p \<noteq> old_path \<and> p \<noteq> base @ ''.txt''
                     \<and> p \<noteq> path_join (dirname old_path) (new_name @ ''.json'')
                     \<and> p \<noteq> path_join (dirname old_path) (new_name @ ''.txt'')
                   \<longrightarrow> snd (rename_chat_file fs old_path new_name) p = fs p)"
    using d1 d2 by (auto simp: r)
qed

lemma rename_chat_file_cases_instance:
  "rename_chat_file chat_files ''chat_history/a.json'' ''b'' = (NameExists, chat_files)
   \<and> rename_chat_file chat_files ''chat_history/z.json'' ''c''
       = (RenameFailed FileNotFoundError, chat_files)
   \<and> fst (rename_chat_file chat_files ''chat_history/a.json'' ''c'')
       = Renamed ''chat_history/c.json''
   \<and> snd (rename_chat_file chat_files ''chat_history/a.json'' ''c'') ''chat_history/c.json''
       = Some (JsonDoc (PDict [(''chat_name'', PStr ''c'')]))
   \<and> snd (rename_chat_file chat_files ''chat_history/a.json'' ''c'') ''chat_history/a.json''
       = None
   \<and> snd (rename_chat_file chat_files ''chat_history/a.json'' ''c'') ''chat_history/c.txt''
       = Some (TextDoc ''Chat with Ollama'')
   \<and> snd (rename_chat_file chat_files ''chat_history/a.json'' ''c'') ''chat_history/a.txt''
       = None"
proof -
  have dn: "dirname ''chat_history/a.json'' = ''chat_history''"
    "dirname ''chat_history/z.json'' = ''chat_history''"
    by (simp_all add: dirname_def)
  have pj: "path_join ''chat_history'' ''b.json'' = ''chat_history/b.json''"
    "path_join ''chat_history'' ''c.json'' = ''chat_history/c.json''"
    "path_join ''chat_history'' ''c.txt'' = ''chat_history/c.txt''"
    by (simp_all add: path_join_def suffix_def)
  have occ: "\<not> occurs_in ''.json'' ''chat_history/a''"
    by simp
  from rename_chat_file_cases [where fs = chat_files and old_path = "''chat_history/a.json''"
      and new_name = "''b''" and kvs = "[]" and base = "[]"]
    rename_chat_file_cases [where fs = chat_files and old_path = "''chat_history/z.json''"
      and new_name = "''c''" and kvs = "[]" and base = "[]"]
    rename_chat_file_cases [where fs = chat_files and old_path = "''chat_history/a.json''"
      and new_name = "''c''" and kvs = "[(''chat_name'', PStr ''a'')]"
      and base = "''chat_history/a''"]
    occ
  show ?thesis
    by (simp add: dn pj chat_files_def)
qed

text \<open>
  C6 does not hold of \<^verbatim>\<open>rename_chat_file\<close>: the transcript is looked for at the path
  that \<^verbatim>\<open>old_path.replace(".json", ".txt")\<close> gives, which replaces every occurrence
  and not only the extension. A chat saved under the name \<^verbatim>\<open>a.json\<close> has its data in
  \<^verbatim>\<open>a.json.json\<close> and its transcript in \<^verbatim>\<open>a.json.txt\<close>; renaming it to \<^verbatim>\<open>b\<close>
  succeeds and moves the data file, but the transcript is looked for at
  \<^verbatim>\<open>a.txt.txt\<close>, is not found and stays where it was, and no \<^verbatim>\<open>b.txt\<close> appears.
\<close>

theorem rename_leaves_transcript:
  "fst (save_conversation demo_lib demo_clock talk_session Map.empty (Some ''a.json''))
     = Returns (SavedTo ''chat_history/a.json.json'')
   \<and> dotted_files ''chat_history/a.json.txt'' \<noteq> None
   \<and> dotted_files ''chat_history/b.json'' = None
   \<and> str_replace ''.json'' ''.txt'' ''chat_history/a.json.json'' = ''chat_history/a.txt.txt''
   \<and> fst (rename_chat_file dotted_files ''chat_history/a.json.json'' ''b'')
       = Renamed ''chat_history/b.json''
   \<and> snd (rename_chat_file dotted_files ''chat_history/a.json.json'' ''b'')
         ''chat_history/a.json.json'' = None
   \<and> snd (rename_chat_file dotted_files ''chat_history/a.json.json'' ''b'')
         ''chat_history/a.json.txt'' = dotted_files ''chat_history/a.json.txt''
   \<and> snd (rename_chat_file dotted_files ''chat_history/a.json.json'' ''b'')
         ''chat_history/b.txt'' = None"
proof -
  have c: "conversation talk_session = PList [exchange ''hi'' (PStr ''hello'')]"
    by (simp add: talk_session_def)
  have e: "list_all is_exchange [exchange ''hi'' (PStr ''hello'')]"
    by (simp add: exchange_def)
  have sd: "save_dir talk_session = ''chat_history''"
    by (simp add: talk_session_def demo_session_def new_session_def)
  from save_conversation_ok [OF c _ e refl, of demo_lib demo_clock Map.empty "Some ''a.json''"]
  obtain out where sv:
    "save_conversation demo_lib demo_clock talk_session Map.empty (Some ''a.json'') =
       (Returns (SavedTo ''chat_history/a.json.json''),
        talk_session\<lparr>chat_name := PStr ''a.json''\<rparr>,
        [''chat_history/a.json.json'' \<mapsto> JsonDoc (PDict
            [(''model'', model talk_session),
             (''timestamp'', PStr (iso demo_clock)),
             (''system_prompt'', system_prompt talk_session),
             (''parameters'', PDict (parameters talk_session)),
             (''chat_name'', PStr ''a.json''),
             (''conversation'', conversation talk_session)]),
         ''chat_history/a.json.txt'' \<mapsto> TextDoc out])"
    by (auto simp: sd)
  have dn: "dirname ''chat_history/a.json.json'' = ''chat_history''"
    by (simp add: dirname_def)
  have pj: "path_join ''chat_history'' ''b.json'' = ''chat_history/b.json''"
    "path_join ''chat_history'' ''b.txt'' = ''chat_history/b.txt''"
    by (simp_all add: path_join_def suffix_def)
  have rp: "str_replace ''.json'' ''.txt'' ''chat_history/a.json.json''
      = ''chat_history/a.txt.txt''"
    by simp
  from sv rp show ?thesis
    by (simp add: dotted_files_def rename_chat_file_def Let_def dn pj os_rename_def)
qed

end
